theory Spec2Isabelle
  imports Main "HOL-Library.Word"
begin

section \<open>Calendar arithmetic of the datetime library\<close>

text \<open>
  Both handlers read the clock with \<open>datetime.now(timezone.utc)\<close> and turn datetimes
  into epoch seconds with \<open>int(dt.timestamp())\<close>. The library does all date arithmetic
  on proleptic Gregorian ordinals (\<open>toordinal\<close>, \<open>fromordinal\<close>), so a datetime is
  kept here as the ordinal of its date together with its clock fields. The calendar
  functions below follow the library's \<open>_is_leap\<close>, \<open>_days_before_year\<close>,
  \<open>_days_before_month\<close>, \<open>_ymd2ord\<close> and \<open>_ord2ymd\<close>.
\<close>

definition is_leap :: "int \<Rightarrow> bool" where
  "is_leap year = (year mod 4 = 0 \<and> (year mod 100 \<noteq> 0 \<or> year mod 400 = 0))"

definition days_before_year :: "int \<Rightarrow> int" where
  "days_before_year year =
     (let y = year - 1 in y * 365 + y div 4 - y div 100 + y div 400)"

definition DAYS_IN_MONTH :: "int list" where
  "DAYS_IN_MONTH = [-1, 31, 28, 31, 30, 31, 30, 31, 31, 30, 31, 30, 31]"

definition DAYS_BEFORE_MONTH :: "int list" where
  "DAYS_BEFORE_MONTH = [-1, 0, 31, 59, 90, 120, 151, 181, 212, 243, 273, 304, 334]"

definition days_in_month :: "int \<Rightarrow> int \<Rightarrow> int" where
  "days_in_month year month =
     (if month = 2 \<and> is_leap year then 29 else DAYS_IN_MONTH ! nat month)"

definition days_before_month :: "int \<Rightarrow> int \<Rightarrow> int" where
  "days_before_month year month =
     DAYS_BEFORE_MONTH ! nat month + (if month > 2 \<and> is_leap year then 1 else 0)"

definition ymd2ord :: "int \<Rightarrow> int \<Rightarrow> int \<Rightarrow> int" where
  "ymd2ord year month day =
     days_before_year year + days_before_month year month + day"

definition ord2ymd :: "int \<Rightarrow> int \<times> int \<times> int" where
  "ord2ymd n0 =
     (let n = n0 - 1;
          n400 = n div 146097; n = n mod 146097;
          year = n400 * 400 + 1;
          n100 = n div 36524; n = n mod 36524;
          n4 = n div 1461; n = n mod 1461;
          n1 = n div 365; n = n mod 365;
          year = year + n100 * 100 + n4 * 4 + n1
      in if n1 = 4 \<or> n100 = 4 then (year - 1, 12, 31)
         else
           let leapyear = (n1 = 3 \<and> (n4 \<noteq> 24 \<or> n100 = 3));
               month = (n + 50) div 32;
               preceding = DAYS_BEFORE_MONTH ! nat month
                            + (if month > 2 \<and> leapyear then 1 else 0)
           in if preceding > n
              then let month = month - 1;
                       preceding = preceding
                         - (DAYS_IN_MONTH ! nat month
                            + (if month = 2 \<and> leapyear then 1 else 0))
                   in (year, month, n - preceding + 1)
              else (year, month, n - preceding + 1))"

text \<open>\<open>date.min.toordinal()\<close> is 1, \<open>date.max.toordinal()\<close> (9999-12-31) is 3652059 and
  the epoch 1970-01-01 has ordinal 719163.\<close>

definition MINORDINAL :: int where "MINORDINAL = 1"
definition MAXORDINAL :: int where "MAXORDINAL = 3652059"
definition EPOCH_ORDINAL :: int where "EPOCH_ORDINAL = 719163"

record datetime =
  ordinal :: int
  hour :: int
  minute :: int
  second :: int
  microsecond :: int


text \<open>\<open>datetime(year, month, day, hour, minute, second, tzinfo=timezone.utc)\<close>: the
  constructor checks every field and raises ValueError (here \<open>None\<close>) otherwise.\<close>

definition utc_datetime :: "int \<Rightarrow> int \<Rightarrow> int \<Rightarrow> int \<Rightarrow> int \<Rightarrow> int \<Rightarrow> datetime option" where
  "utc_datetime y m d hh mm ss =
     (if 1 \<le> y \<and> y \<le> 9999 \<and> 1 \<le> m \<and> m \<le> 12 \<and> 1 \<le> d \<and> d \<le> days_in_month y m
         \<and> 0 \<le> hh \<and> hh < 24 \<and> 0 \<le> mm \<and> mm < 60 \<and> 0 \<le> ss \<and> ss < 60
      then Some \<lparr>ordinal = ymd2ord y m d, hour = hh, minute = mm, second = ss,
                 microsecond = 0\<rparr>
      else None)"

text \<open>\<open>dt + timedelta(days=n)\<close>: the date moves by \<open>n\<close> ordinals, the clock stays; a
  result outside years 1..9999 raises OverflowError (\<open>None\<close>).\<close>

definition add_days :: "datetime \<Rightarrow> int \<Rightarrow> datetime option" where
  "add_days dt n =
     (let ord' = ordinal dt + n
      in if MINORDINAL \<le> ord' \<and> ord' \<le> MAXORDINAL
         then Some (dt\<lparr>ordinal := ord'\<rparr>) else None)"

text \<open>\<open>datetime.combine(dt.date(), time(hh, mm), tzinfo=timezone.utc)\<close>.\<close>

definition combine_date :: "datetime \<Rightarrow> int \<Rightarrow> int \<Rightarrow> datetime" where
  "combine_date dt hh mm =
     \<lparr>ordinal = ordinal dt, hour = hh, minute = mm, second = 0, microsecond = 0\<rparr>"


text \<open>Whole seconds between the epoch and \<open>dt\<close>, rounded down: the integral part of
  \<open>(dt - epoch)\<close> as a timedelta.\<close>

definition epoch_seconds :: "datetime \<Rightarrow> int" where
  "epoch_seconds dt =
     (ordinal dt - EPOCH_ORDINAL) * 86400 + hour dt * 3600 + minute dt * 60 + second dt"

text \<open>\<open>int(dt.timestamp())\<close>: \<open>timestamp()\<close> is the seconds since the epoch with the
  microseconds as fraction, and \<open>int\<close> truncates towards zero, so before the epoch a
  nonzero fraction rounds up. The float is taken as exact.\<close>

definition int_timestamp :: "datetime \<Rightarrow> int" where
  "int_timestamp dt =
     (let s = epoch_seconds dt
      in if s < 0 \<and> microsecond dt > 0 then s + 1 else s)"

section \<open>Completion: expiry and verification code\<close>

text \<open>Lines 70 to 75 of the webhook handler: \<open>creation_timestamp\<close> and
  \<open>expiration_timestamp\<close> from \<open>now_utc\<close>. \<open>None\<close> is the OverflowError of the
  addition.\<close>

definition expiration_datetime :: "datetime \<Rightarrow> datetime option" where
  "expiration_datetime now_utc =
     (case add_days now_utc 1 of
        None \<Rightarrow> None
      | Some tomorrow_utc \<Rightarrow> Some (combine_date tomorrow_utc 5 0))"

definition creation_timestamp :: "datetime \<Rightarrow> int" where
  "creation_timestamp now_utc = int_timestamp now_utc"

definition expiration_timestamp :: "datetime \<Rightarrow> int option" where
  "expiration_timestamp now_utc = map_option int_timestamp (expiration_datetime now_utc)"

text \<open>
  \<open>generate_short_id\<close>: \<open>random.choices(characters, k=length)\<close> draws \<open>k\<close> times
  \<open>population[floor(random() * n)]\<close>, and \<open>random()\<close> is a 53-bit integer divided by
  \<open>2^53\<close>. The random source is the sequence of those integers, and the product is
  taken as exact.
\<close>

definition ascii_uppercase :: string where
  "ascii_uppercase = ''ABCDEFGHIJKLMNOPQRSTUVWXYZ''"

definition choices :: "(nat \<Rightarrow> 53 word) \<Rightarrow> 'a list \<Rightarrow> nat \<Rightarrow> 'a list" where
  "choices rnd population k =
     map (\<lambda>i. population ! ((unat (rnd i) * length population) div 2 ^ 53)) [0..<k]"

definition generate_short_id :: "nat \<Rightarrow> (nat \<Rightarrow> 53 word) \<Rightarrow> string" where
  "generate_short_id len rnd =
     (let characters = ascii_uppercase @ ''23456789''
      in choices rnd characters len)"

text \<open>A random source that returns \<open>7 * 2^49 / 2^53 = 0.4375\<close> at every draw.\<close>

definition stuck_rnd :: "nat \<Rightarrow> 53 word" where
  "stuck_rnd i = 3940649673949184"


section \<open>The record store\<close>

text \<open>
  One table, \<open>DonationRecords\<close>, keyed by \<open>donationId\<close>. An item is a set of
  attributes; an attribute that is absent (or stored as NULL, which \<open>item.get\<close> does not
  tell apart) is \<open>None\<close>. The table is the list of its items; the two secondary
  indexes are queries on it.
\<close>

record item =
  donationId :: string
  checkoutSessionId :: "string option"
  amount :: "int option"
  currency :: "string option"
  status :: "string option"
  payerEmail :: "string option"
  payerName :: "string option"
  timestamp :: "int option"
  eventName :: "string option"
  frontendDomain :: "string option"
  verificationId :: "string option"
  expirationTime :: "int option"
  creationTime :: "int option"
  redeemed :: "bool option"
  redeemedTime :: "int option"

type_synonym table = "item list"

text \<open>\<open>item.get(k, default)\<close> on an attribute.\<close>

definition get_or :: "'a option \<Rightarrow> 'a \<Rightarrow> 'a" where
  "get_or attr dflt = (case attr of None \<Rightarrow> dflt | Some v \<Rightarrow> v)"

text \<open>The item an update creates when its key is not in the table: the key alone.\<close>

definition key_only :: "string \<Rightarrow> item" where
  "key_only k =
     \<lparr>donationId = k, checkoutSessionId = None, amount = None, currency = None,
      status = None, payerEmail = None, payerName = None, timestamp = None,
      eventName = None, frontendDomain = None, verificationId = None,
      expirationTime = None, creationTime = None, redeemed = None, redeemedTime = None\<rparr>"

definition has_key :: "string \<Rightarrow> table \<Rightarrow> bool" where
  "has_key k t = (k \<in> set (map donationId t))"

text \<open>\<open>table.query(IndexName=..., KeyConditionExpression=Key(attr).eq(v))\<close>: the items
  that carry the attribute with that value.\<close>

definition query_index :: "(item \<Rightarrow> string option) \<Rightarrow> string \<Rightarrow> table \<Rightarrow> item list" where
  "query_index attr v t = filter (\<lambda>it. attr it = Some v) t"

text \<open>\<open>table.put_item(Item=it)\<close>: replaces the item with the same key, or adds one.\<close>

definition put_item :: "item \<Rightarrow> table \<Rightarrow> table" where
  "put_item it t =
     (if has_key (donationId it) t
      then map (\<lambda>x. if donationId x = donationId it then it else x) t
      else t @ [it])"

text \<open>\<open>table.update_item(Key={'donationId': k}, UpdateExpression="SET ...")\<close>: applies
  the assignments to the item with that key, which it creates when there is none.\<close>

definition update_item :: "string \<Rightarrow> (item \<Rightarrow> item) \<Rightarrow> table \<Rightarrow> table" where
  "update_item k f t =
     (if has_key k t
      then map (\<lambda>x. if donationId x = k then f x else x) t
      else t @ [f (key_only k)])"

datatype exn = ClientError string | Exception

text \<open>The same with a \<open>ConditionExpression\<close>, checked on the stored item (on the empty
  item when there is none) in the same atomic step as the write.\<close>

definition conditional_update_item ::
  "string \<Rightarrow> (item \<Rightarrow> bool) \<Rightarrow> (item \<Rightarrow> item) \<Rightarrow> table \<Rightarrow> exn + table" where
  "conditional_update_item k cond f t =
     (case filter (\<lambda>x. donationId x = k) t of
        [] \<Rightarrow> if cond (key_only k) then Inr (t @ [f (key_only k)])
              else Inl (ClientError ''ConditionalCheckFailedException'')
      | x # _ \<Rightarrow> if cond x then Inr (map (\<lambda>x. if donationId x = k then f x else x) t)
                 else Inl (ClientError ''ConditionalCheckFailedException''))"

section \<open>Ticket validation and redemption (\<open>validate_ticket\<close>)\<close>

subsection \<open>Formatting the redemption time\<close>

text \<open>\<open>datetime.fromtimestamp(t, tz=timezone.utc)\<close> raises for a time outside the years
  1 to 9999 (\<open>None\<close>).\<close>

definition fromtimestamp_utc :: "int \<Rightarrow> datetime option" where
  "fromtimestamp_utc t =
     (let ord = t div 86400 + EPOCH_ORDINAL; s = t mod 86400
      in if MINORDINAL \<le> ord \<and> ord \<le> MAXORDINAL
         then Some \<lparr>ordinal = ord, hour = s div 3600, minute = (s mod 3600) div 60,
                    second = s mod 60, microsecond = 0\<rparr>
         else None)"

definition digit_char :: "nat \<Rightarrow> char" where
  "digit_char d = ''0123456789'' ! (d mod 10)"

fun digits :: "nat \<Rightarrow> nat \<Rightarrow> string" where
  "digits 0 n = []"
| "digits (Suc k) n = digits k (n div 10) @ [digit_char n]"

text \<open>\<open>%m\<close>, \<open>%d\<close>, \<open>%H\<close>, \<open>%M\<close>, \<open>%S\<close> print two digits, \<open>%Y\<close> at least four
  (years from 1000 on; the padding of earlier years depends on the C library and is
  taken as four digits too).\<close>

definition strftime_utc :: "datetime \<Rightarrow> string" where
  "strftime_utc dt =
     (case ord2ymd (ordinal dt) of (y, m, d) \<Rightarrow>
        digits 4 (nat y) @ ''-'' @ digits 2 (nat m) @ ''-'' @ digits 2 (nat d) @ '' ''
        @ digits 2 (nat (hour dt)) @ '':'' @ digits 2 (nat (minute dt)) @ '':''
        @ digits 2 (nat (second dt)) @ '' UTC'')"

text \<open>The stored redemption times that can be formatted: none, or a time in the years
  1 to 9999 (from 0001-01-01T00:00:00Z to 9999-12-31T23:59:59Z).\<close>

definition representable :: "int option \<Rightarrow> bool" where
  "representable ts =
     (case ts of None \<Rightarrow> True | Some t \<Rightarrow> - 62135596800 \<le> t \<and> t \<le> 253402300799)"

subsection \<open>The validation rules\<close>

text \<open>Lines 65 to 108: the verdict on the item read, before any write. \<open>Inl\<close> is the
  exception of \<open>datetime.fromtimestamp\<close> in the second rule.\<close>

definition redeemed_reason :: "int option \<Rightarrow> exn + string" where
  "redeemed_reason redeemed_timestamp =
     (if redeemed_timestamp = None \<or> redeemed_timestamp = Some 0
      then Inr ''Ticket has already been redeemed.''
      else case fromtimestamp_utc (the redeemed_timestamp) of
             None \<Rightarrow> Inl Exception
           | Some redeemed_dt \<Rightarrow>
               Inr (''Ticket has already been redeemed at '' @ strftime_utc redeemed_dt @ ''.''))"

definition evaluate :: "item \<Rightarrow> int \<Rightarrow> exn + bool \<times> string" where
  "evaluate it current_time_utc =
     (let is_redeemed_db = get_or (redeemed it) False;
          expiration_time_utc_db = get_or (expirationTime it) 0;
          creation_time_utc_db = get_or (creationTime it) 0;
          two_hour_window_end_time = creation_time_utc_db + 2 * 60 * 60
      in if status it \<noteq> Some ''completed''
         then Inr (False,
           ''Ticket status is not 'completed'. Payment might be pending or failed.'')
         else if is_redeemed_db
         then (case redeemed_reason (redeemedTime it) of
                 Inl e \<Rightarrow> Inl e
               | Inr reason \<Rightarrow> Inr (False, reason))
         else if current_time_utc > expiration_time_utc_db
         then Inr (False, ''Ticket has expired (past 5 AM UTC next day).'')
         else if current_time_utc > two_hour_window_end_time
         then Inr (False,
           ''Ticket is no longer valid (exceeded 2-hour validation window from purchase).'')
         else Inr (True, ''Ticket is valid.''))"

subsection \<open>The handler\<close>

text \<open>
  The request: its HTTP method and what \<open>json.loads(body).get('verificationId')\<close>
  gives (\<open>Unparsable\<close> when that raises). The response: the status code and the JSON
  body; the CORS headers are the same on every response and are left out.
\<close>

datatype request_body = Unparsable | Parsed "string option"

record event =
  httpMethod :: "string option"
  body :: request_body

record response_data =
  r_valid :: bool
  r_reason :: string
  r_donationId :: string
  r_verificationId :: string
  r_status :: "string option"
  r_payerEmail :: "string option"
  r_amount :: "int option"
  r_currency :: "string option"
  r_creationTime :: int
  r_expirationTime :: int
  r_currentTime :: int
  r_redeemed :: bool
  r_redeemedTime :: "int option"
  r_actionTaken :: string

datatype response_body =
    Empty
  | Message string bool string
  | Data response_data

record response =
  statusCode :: nat
  response_body :: response_body

definition create_response :: "nat \<Rightarrow> response_body \<Rightarrow> response" where
  "create_response status_code body_content =
     \<lparr>statusCode = status_code, response_body = body_content\<rparr>"


fun body_action :: "response_body \<Rightarrow> string option" where
  "body_action Empty = None"
| "body_action (Message m v r) = None"
| "body_action (Data d) = Some (r_actionTaken d)"

text \<open>The storage faults of one invocation: whether the query raises, and the exception
  that \<open>update_item\<close> raises for a reason of its own (none: it answers from the table).\<close>

record faults =
  query_fault :: bool
  update_fault :: "exn option"

definition no_faults :: faults where
  "no_faults = \<lparr>query_fault = False, update_fault = None\<rparr>"

definition internal_server_error :: response where
  "internal_server_error =
     create_response 500 (Message ''Internal server error.'' False ''Internal server error'')"

text \<open>What the first half of the handler leaves for the second: the item read, the
  code, the clock reading and the verdict.\<close>

record evaluated =
  e_item :: item
  e_verification_id :: string
  e_current_time_utc :: int
  e_is_valid :: bool
  e_reason :: string

text \<open>Lines 33 to 108: up to the verdict. \<open>Inl\<close> is a response returned from there.\<close>

definition validate_read :: "faults \<Rightarrow> event \<Rightarrow> table \<Rightarrow> int \<Rightarrow> response + evaluated" where
  "validate_read f ev t current_time_utc =
     (if httpMethod ev = Some ''OPTIONS'' then Inl (create_response 200 Empty)
      else case body ev of
        Unparsable \<Rightarrow> Inl internal_server_error
      | Parsed v \<Rightarrow>
          if v = None \<or> v = Some []
          then Inl (create_response 400
                 (Message ''Verification ID is required.'' False ''Missing ID''))
          else if query_fault f then Inl internal_server_error
          else case query_index verificationId (the v) t of
            [] \<Rightarrow> Inl (create_response 404
                    (Message ''Ticket not found.'' False ''Ticket not found''))
          | it # _ \<Rightarrow>
              (case evaluate it current_time_utc of
                 Inl e \<Rightarrow> Inl internal_server_error
               | Inr (is_valid, reason) \<Rightarrow>
                   Inr \<lparr>e_item = it, e_verification_id = the v,
                        e_current_time_utc = current_time_utc,
                        e_is_valid = is_valid, e_reason = reason\<rparr>))"

definition response_data_of :: "evaluated \<Rightarrow> bool \<Rightarrow> string \<Rightarrow> bool \<Rightarrow> int option \<Rightarrow> string
    \<Rightarrow> response_data" where
  "response_data_of e is_valid reason is_redeemed_db redeemed_time_db action_taken =
     \<lparr>r_valid = is_valid, r_reason = reason,
      r_donationId = donationId (e_item e),
      r_verificationId = e_verification_id e,
      r_status = status (e_item e),
      r_payerEmail = payerEmail (e_item e),
      r_amount = amount (e_item e),
      r_currency = currency (e_item e),
      r_creationTime = get_or (creationTime (e_item e)) 0,
      r_expirationTime = get_or (expirationTime (e_item e)) 0,
      r_currentTime = e_current_time_utc e,
      r_redeemed = is_redeemed_db,
      r_redeemedTime = redeemed_time_db,
      r_actionTaken = action_taken\<rparr>"

text \<open>The conditional write of lines 115 to 124.\<close>

definition redeem_update :: "exn option \<Rightarrow> string \<Rightarrow> int \<Rightarrow> table \<Rightarrow> exn + table" where
  "redeem_update fault donation_id redeem_timestamp t =
     (case fault of
        Some e \<Rightarrow> Inl e
      | None \<Rightarrow>
          conditional_update_item donation_id
            (\<lambda>x. redeemed x = None \<or> redeemed x = Some False)
            (\<lambda>x. x\<lparr>redeemed := Some True, redeemedTime := Some redeem_timestamp\<rparr>) t)"

text \<open>Lines 110 to 173: the redemption and the response. A ClientError other than the
  failed condition is raised again inside its own handler, where the sibling
  \<open>except Exception\<close> does not see it: it reaches the outer handler.\<close>

definition validate_write :: "faults \<Rightarrow> evaluated \<Rightarrow> table \<Rightarrow> int \<Rightarrow> response \<times> table" where
  "validate_write f e t redeem_timestamp =
     (let is_redeemed_db = get_or (redeemed (e_item e)) False;
          redeemed_time_db = redeemedTime (e_item e)
      in if e_is_valid e
         then (case redeem_update (update_fault f) (donationId (e_item e)) redeem_timestamp t of
                 Inr t' \<Rightarrow>
                   (create_response 200 (Data (response_data_of e True
                      ''Ticket is valid and has been redeemed.'' True (Some redeem_timestamp)
                      ''redeemed'')), t')
               | Inl (ClientError code) \<Rightarrow>
                   if code = ''ConditionalCheckFailedException''
                   then (create_response 200 (Data (response_data_of e False
                           ''Ticket has already been redeemed by another process.''
                           is_redeemed_db redeemed_time_db ''failed_redeem_concurrent'')), t)
                   else (internal_server_error, t)
               | Inl Exception \<Rightarrow>
                   (create_response 200 (Data (response_data_of e False
                      ''Internal error during ticket redemption.''
                      is_redeemed_db redeemed_time_db ''failed_redeem_general'')), t))
         else (create_response 200 (Data (response_data_of e False (e_reason e)
                 is_redeemed_db redeemed_time_db ''none'')), t))"

text \<open>\<open>lambda_handler\<close> of \<open>validate_ticket\<close>: the two halves in one invocation, with
  the two clock readings of lines 71 and 113.\<close>

definition validate_ticket ::
  "faults \<Rightarrow> event \<Rightarrow> table \<Rightarrow> int \<Rightarrow> int \<Rightarrow> response \<times> table" where
  "validate_ticket f ev t current_time_utc redeem_timestamp =
     (case validate_read f ev t current_time_utc of
        Inl r \<Rightarrow> (r, t)
      | Inr e \<Rightarrow> validate_write f e t redeem_timestamp)"

section \<open>Completion of a purchase (\<open>handle_stripe_webhook\<close>)\<close>

text \<open>
  A field of the event's JSON is absent, \<open>null\<close> or a value: \<open>d.get(k)\<close> gives
  \<open>None\<close> for the first two, \<open>d.get(k, default)\<close> gives the default only for the
  first, and a method call or a division on \<open>null\<close> raises.
\<close>

datatype 'a json_field = Absent | Null | Val 'a

fun get :: "'a json_field \<Rightarrow> 'a option" where
  "get (Val v) = Some v"
| "get _ = None"

fun get_default :: "'a json_field \<Rightarrow> 'a \<Rightarrow> 'a option" where
  "get_default Absent d = Some d"
| "get_default Null d = None"
| "get_default (Val v) d = Some v"

record customer_details =
  cd_email :: "string json_field"
  cd_name :: "string json_field"

record checkout_session =
  cs_id :: string
  cs_customer_details :: "customer_details json_field"
  cs_amount_total :: "int json_field"

record stripe_event =
  event_type :: string
  data_object :: checkout_session

record webhook_response =
  w_statusCode :: nat
  w_body :: "(string \<times> string option) option"

definition webhook_error :: "string \<Rightarrow> webhook_response" where
  "webhook_error msg = \<lparr>w_statusCode = 200, w_body = Some (''error'', Some msg)\<rparr>"

definition webhook_success :: webhook_response where
  "webhook_success = \<lparr>w_statusCode = 200, w_body = Some (''success'', None)\<rparr>"

text \<open>The \<open>SET\<close> of lines 90 to 111.\<close>

definition complete_item ::
  "string \<Rightarrow> int \<Rightarrow> int \<Rightarrow> string option \<Rightarrow> string option \<Rightarrow> item \<Rightarrow> item" where
  "complete_item verification_id expiration creation customer_email customer_name x =
     x\<lparr>status := Some ''completed'', verificationId := Some verification_id,
       expirationTime := Some expiration, redeemed := Some False,
       creationTime := Some creation, payerEmail := customer_email,
       payerName := customer_name\<rparr>"

text \<open>
  \<open>lambda_handler\<close> of \<open>handle_stripe_webhook\<close>. Its inputs: the storage faults (whether
  the query raises, whether the update raises), what \<open>stripe.Webhook.construct_event\<close>
  returns (\<open>None\<close>: it raised), the clock and the random source. \<open>Inl\<close> is an exception
  that leaves the handler: lines 59 to 62 read the session outside the \<open>try\<close>. Sending
  the email catches its own exceptions and touches neither the table nor the response.
\<close>

record webhook_faults =
  wf_query :: bool
  wf_update :: bool

definition handle_stripe_webhook ::
  "webhook_faults \<Rightarrow> stripe_event option \<Rightarrow> datetime \<Rightarrow> (nat \<Rightarrow> 53 word) \<Rightarrow> table
    \<Rightarrow> exn + webhook_response \<times> table" where
  "handle_stripe_webhook f verified now_utc rnd t =
     (case verified of
        None \<Rightarrow> Inr (\<lparr>w_statusCode = 400, w_body = None\<rparr>, t)
      | Some ev \<Rightarrow>
          if event_type ev = ''checkout.session.completed''
          then
            let session = data_object ev; checkout_session_id = cs_id session
            in if cs_customer_details session = Null \<or> cs_amount_total session = Null
               then Inl Exception
               else
                 let details = get (cs_customer_details session);
                     customer_email = (case details of None \<Rightarrow> None | Some d \<Rightarrow> get (cd_email d));
                     verification_id = generate_short_id 7 rnd;
                     creation = creation_timestamp now_utc
                 in case expiration_timestamp now_utc of
                      None \<Rightarrow> Inr (webhook_error ''Internal server error'', t)
                    | Some expiration \<Rightarrow>
                        if wf_query f then Inr (webhook_error ''Internal server error'', t)
                        else case query_index checkoutSessionId checkout_session_id t of
                          [] \<Rightarrow> Inr (webhook_error ''Donation record not found'', t)
                        | donation_item # _ \<Rightarrow>
                            if wf_update f
                            then Inr (webhook_error ''Internal server error'', t)
                            else
                              let customer_name =
                                    (case details of None \<Rightarrow> Some ''N/A''
                                     | Some d \<Rightarrow> get_default (cd_name d) ''N/A'')
                              in Inr (webhook_success,
                                   update_item (donationId donation_item)
                                     (complete_item verification_id expiration creation
                                        customer_email customer_name) t)
          else Inr (webhook_success, t))"

section \<open>Creation of a pending record (\<open>ProcessDonation\<close>)\<close>

text \<open>
  The request carries \<open>email\<close> and \<open>amount\<close> (\<open>None\<close>: absent, or for the amount not an
  \<open>int\<close>). The environment of one invocation: the fixed price when one is configured,
  what creating the Stripe session returns (its id and URL, or the message of the
  exception), the message of the exception of \<open>put_item\<close> if it raises, the fresh
  \<open>uuid4\<close> and the clock.
\<close>

datatype donation_body = Unparsable_body string | Donation "string option" "int option"

record donation_event =
  d_httpMethod :: "string option"
  d_body :: donation_body

record price_config =
  priceInCents :: int
  pc_eventName :: "string option"

record donation_env =
  env_price_config :: "price_config option"
  env_checkout_session :: "string + string \<times> string"
  env_put_fault :: "string option"
  env_uuid4 :: string
  env_time :: int

datatype donation_reply = No_body | Session_url string | Error_message string

record donation_response =
  d_statusCode :: nat
  d_reply :: donation_reply

definition donation_error :: "string \<Rightarrow> donation_response" where
  "donation_error e =
     \<lparr>d_statusCode = 500, d_reply = Error_message (''Internal server error: '' @ e)\<rparr>"

definition process_donation ::
  "donation_env \<Rightarrow> donation_event \<Rightarrow> table \<Rightarrow> donation_response \<times> table" where
  "process_donation env ev t =
     (if d_httpMethod ev = Some ''OPTIONS'' then (\<lparr>d_statusCode = 200, d_reply = No_body\<rparr>, t)
      else case d_body ev of
        Unparsable_body e \<Rightarrow> (donation_error e, t)
      | Donation user_email body_amount \<Rightarrow>
          let donation_amount =
                (case env_price_config env of
                   Some pc \<Rightarrow> Some (priceInCents pc)
                 | None \<Rightarrow> body_amount);
              product_name =
                (case env_price_config env of
                   Some pc \<Rightarrow> (case pc_eventName pc of None \<Rightarrow> ''Event Ticket'' | Some n \<Rightarrow> n)
                 | None \<Rightarrow> ''One-time Donation'')
          in if donation_amount = None \<or> the donation_amount < 100
             then (donation_error ''Invalid amount. Must be at least 1 EUR.'', t)
             else if user_email = None \<or> user_email = Some []
             then (donation_error ''Email is required.'', t)
             else case env_checkout_session env of
               Inl e \<Rightarrow> (donation_error e, t)
             | Inr (session_id, session_url) \<Rightarrow>
                 let item_to_save =
                       (key_only (env_uuid4 env))
                         \<lparr>checkoutSessionId := Some session_id,
                          amount := donation_amount,
                          currency := Some ''eur'',
                          status := Some ''pending'',
                          payerEmail := user_email,
                          timestamp := Some (env_time env),
                          eventName := (if env_price_config env = None then None
                                        else Some product_name)\<rparr>
                 in case env_put_fault env of
                      Some e \<Rightarrow> (donation_error e, t)
                    | None \<Rightarrow>
                        (\<lparr>d_statusCode = 200, d_reply = Session_url session_url\<rparr>,
                         put_item item_to_save t))"

section \<open>Sequences and interleavings of invocations\<close>

text \<open>The three operations on the store, each one whole invocation of its handler.\<close>

datatype operation =
    CreatePending donation_env donation_event
  | CompletePurchase webhook_faults "stripe_event option" datetime "nat \<Rightarrow> 53 word"
  | Redeem faults event int int

fun apply_operation :: "operation \<Rightarrow> table \<Rightarrow> table" where
  "apply_operation (CreatePending env ev) t = snd (process_donation env ev t)"
| "apply_operation (CompletePurchase f verified now_utc rnd) t =
     (case handle_stripe_webhook f verified now_utc rnd t of
        Inl e \<Rightarrow> t
      | Inr (r, t') \<Rightarrow> t')"
| "apply_operation (Redeem f ev current_time_utc redeem_timestamp) t =
     snd (validate_ticket f ev t current_time_utc redeem_timestamp)"

fun apply_operations :: "operation list \<Rightarrow> table \<Rightarrow> table" where
  "apply_operations [] t = t"
| "apply_operations (op # ops) t = apply_operations ops (apply_operation op t)"

text \<open>The invariants of a record that the design states.\<close>

definition redeemed_implies_completed :: "item \<Rightarrow> bool" where
  "redeemed_implies_completed it =
     (redeemed it = Some True \<longrightarrow> status it = Some ''completed'')"

definition redeemed_iff_redeemedTime :: "item \<Rightarrow> bool" where
  "redeemed_iff_redeemedTime it = ((redeemedTime it \<noteq> None) = (redeemed it = Some True))"

definition redeemed_implies_redeemedTime :: "item \<Rightarrow> bool" where
  "redeemed_implies_redeemedTime it = (redeemed it = Some True \<longrightarrow> redeemedTime it \<noteq> None)"







section \<open>Example data\<close>

text \<open>A ticket completed on 2024-01-10 at 23:00:00 UTC (1704927600), which expires
  on 2024-01-11 at 05:00:00 UTC (1704949200), and a scan of its code.\<close>

definition ticket :: item where
  "ticket =
     \<lparr>donationId = ''d-1'', checkoutSessionId = Some ''cs_test_1'', amount = Some 500,
      currency = Some ''eur'', status = Some ''completed'', payerEmail = Some ''ann@example.org'',
      payerName = Some ''Ann'', timestamp = Some 1704927000, eventName = None,
      frontendDomain = None, verificationId = Some ''ABC2345'',
      expirationTime = Some 1704949200, creationTime = Some 1704927600,
      redeemed = Some False, redeemedTime = None\<rparr>"

definition scan :: event where
  "scan = \<lparr>httpMethod = Some ''POST'', body = Parsed (Some ''ABC2345'')\<rparr>"

text \<open>A storage fault of the redemption write that is a ClientError but not the failed
  condition: the table throttles the request.\<close>

definition throttled :: faults where
  "throttled =
     \<lparr>query_fault = False,
      update_fault = Some (ClientError ''ProvisionedThroughputExceededException'')\<rparr>"

text \<open>The effect of a successful redemption write on an item of the table.\<close>

definition mark_redeemed :: "string \<Rightarrow> int \<Rightarrow> item \<Rightarrow> item" where
  "mark_redeemed k n x =
     (if donationId x = k then x\<lparr>redeemed := Some True, redeemedTime := Some n\<rparr> else x)"

text \<open>The ticket after a redemption at 23:10:01 UTC, and the snapshot of the ticket that
  an invocation has evaluated as valid at 23:10:00 UTC.\<close>

definition redeemed_ticket :: item where
  "redeemed_ticket = ticket\<lparr>redeemed := Some True, redeemedTime := Some 1704928201\<rparr>"

definition valid_snapshot :: evaluated where
  "valid_snapshot =
     \<lparr>e_item = ticket, e_verification_id = ''ABC2345'', e_current_time_utc = 1704928200,
      e_is_valid = True, e_reason = ''Ticket is valid.''\<rparr>"

text \<open>A purchase of 5 EUR, its pending record, the payment event of its session and the
  completion on 2024-01-10 at 23:00:00 UTC with the random source \<open>stuck_rnd\<close>, which
  gives the code \<open>OOOOOOO\<close>.\<close>

definition purchase_request :: donation_event where
  "purchase_request =
     \<lparr>d_httpMethod = Some ''POST'', d_body = Donation (Some ''ann@example.org'') (Some 500)\<rparr>"

definition purchase_env :: donation_env where
  "purchase_env =
     \<lparr>env_price_config = None,
      env_checkout_session = Inr (''cs_test_1'', ''https://checkout.stripe.com/cs_test_1''),
      env_put_fault = None, env_uuid4 = ''d-1'', env_time = 1704927000\<rparr>"

definition pending_ticket :: item where
  "pending_ticket =
     \<lparr>donationId = ''d-1'', checkoutSessionId = Some ''cs_test_1'', amount = Some 500,
      currency = Some ''eur'', status = Some ''pending'', payerEmail = Some ''ann@example.org'',
      payerName = None, timestamp = Some 1704927000, eventName = None,
      frontendDomain = None, verificationId = None, expirationTime = None,
      creationTime = None, redeemed = None, redeemedTime = None\<rparr>"

definition completed_event :: stripe_event where
  "completed_event =
     \<lparr>event_type = ''checkout.session.completed'',
      data_object =
        \<lparr>cs_id = ''cs_test_1'',
         cs_customer_details = Val \<lparr>cd_email = Val ''ann@example.org'', cd_name = Val ''Ann''\<rparr>,
         cs_amount_total = Val 500\<rparr>\<rparr>"

definition completion_time :: datetime where
  "completion_time = \<lparr>ordinal = 738895, hour = 23, minute = 0, second = 0, microsecond = 0\<rparr>"

definition no_webhook_faults :: webhook_faults where
  "no_webhook_faults = \<lparr>wf_query = False, wf_update = False\<rparr>"

definition failing_update :: webhook_faults where
  "failing_update = \<lparr>wf_query = False, wf_update = True\<rparr>"

definition completed_ticket :: item where
  "completed_ticket =
     pending_ticket\<lparr>status := Some ''completed'', verificationId := Some ''OOOOOOO'',
       expirationTime := Some 1704949200, redeemed := Some False,
       creationTime := Some 1704927600, payerName := Some ''Ann''\<rparr>"

definition scan_O :: event where
  "scan_O = \<lparr>httpMethod = Some ''POST'', body = Parsed (Some ''OOOOOOO'')\<rparr>"

text \<open>A purchase, its completion, a redemption at 23:10 and a second delivery of the
  completion event at 23:20.\<close>

definition duplicate_delivery :: "operation list" where
  "duplicate_delivery =
     [CreatePending purchase_env purchase_request,
      CompletePurchase no_webhook_faults (Some completed_event) completion_time stuck_rnd,
      Redeem no_faults scan_O 1704928200 1704928201,
      CompletePurchase no_webhook_faults (Some completed_event)
        (completion_time\<lparr>minute := 20\<rparr>) stuck_rnd]"

definition after_duplicate_delivery :: item where
  "after_duplicate_delivery =
     completed_ticket\<lparr>creationTime := Some 1704928800, redeemedTime := Some 1704928201\<rparr>"

text \<open>The store invariant behind the record invariants: keys are unique, and a redeemed
  record is completed and carries its redemption time.\<close>

definition store_invariant :: "table \<Rightarrow> bool" where
  "store_invariant t =
     (distinct (map donationId t)
      \<and> list_all (\<lambda>it. redeemed_implies_completed it \<and> redeemed_implies_redeemedTime it) t)"

fun is_completion :: "operation \<Rightarrow> bool" where
  "is_completion (CompletePurchase f verified now_utc rnd) = True"
| "is_completion _ = False"

fun is_redemption :: "operation \<Rightarrow> bool" where
  "is_redemption (Redeem f ev current_time_utc redeem_timestamp) = True"
| "is_redemption _ = False"

text \<open>A record that no redemption has touched.\<close>

definition never_redeemed :: "item \<Rightarrow> bool" where
  "never_redeemed it = (redeemedTime it = None \<and> redeemed it \<noteq> Some True)"


text \<open>A record with the key \<open>k\<close> is pending and has no verification code.\<close>

definition pending_without_code :: "string \<Rightarrow> item \<Rightarrow> bool" where
  "pending_without_code k x =
     (donationId x = k \<longrightarrow> status x = Some ''pending'' \<and> verificationId x = None)"

section \<open>Stages of concurrent redemption attempts\<close>

text \<open>
  The stages of an attempt that presents the code \<open>code\<close> of the record \<open>it\<close>. Before
  its query: an invocation without storage faults whose request carries the code, whose
  clock reading is inside both validity windows of the record, and whose redemption
  time is a time of the calendar. After its query: it holds a valid verdict on the
  record as it was before any redemption, or an invalid verdict with the
  already-redeemed reason. After its response: it has redeemed the ticket at time \<open>n\<close>,
  or it lost the race (\<open>failed_redeem_concurrent\<close>), or it found the ticket redeemed
  (\<open>none\<close>).
\<close>

definition starts_with :: "string \<Rightarrow> string \<Rightarrow> bool" where
  "starts_with p s = (take (length p) s = p)"












section \<open>Properties of the calendar arithmetic\<close>

























lemma ymd2ord_2024_01_10: "ymd2ord 2024 1 10 = 738895"
  by (simp add: ymd2ord_def days_before_year_def days_before_month_def DAYS_BEFORE_MONTH_def)

lemma ymd2ord_2024_01_11: "ymd2ord 2024 1 11 = 738896"
  by (simp add: ymd2ord_def days_before_year_def days_before_month_def DAYS_BEFORE_MONTH_def)

lemma ymd2ord_2024_01_12: "ymd2ord 2024 1 12 = 738897"
  by (simp add: ymd2ord_def days_before_year_def days_before_month_def DAYS_BEFORE_MONTH_def)

lemma utc_datetime_2024_01_10_23:
  "utc_datetime 2024 1 10 23 0 0 =
     Some \<lparr>ordinal = 738895, hour = 23, minute = 0, second = 0, microsecond = 0\<rparr>"
  by (simp add: utc_datetime_def ymd2ord_2024_01_10 days_in_month_def DAYS_IN_MONTH_def)

lemma utc_datetime_2024_01_10_02:
  "utc_datetime 2024 1 10 2 0 0 =
     Some \<lparr>ordinal = 738895, hour = 2, minute = 0, second = 0, microsecond = 0\<rparr>"
  by (simp add: utc_datetime_def ymd2ord_2024_01_10 days_in_month_def DAYS_IN_MONTH_def)

lemma utc_datetime_2024_01_11_05:
  "utc_datetime 2024 1 11 5 0 0 =
     Some \<lparr>ordinal = 738896, hour = 5, minute = 0, second = 0, microsecond = 0\<rparr>"
  by (simp add: utc_datetime_def ymd2ord_2024_01_11 days_in_month_def DAYS_IN_MONTH_def)

lemma utc_datetime_2024_01_12_05:
  "utc_datetime 2024 1 12 5 0 0 =
     Some \<lparr>ordinal = 738897, hour = 5, minute = 0, second = 0, microsecond = 0\<rparr>"
  by (simp add: utc_datetime_def ymd2ord_2024_01_12 days_in_month_def DAYS_IN_MONTH_def)

lemma expiration_timestamp_concrete:
  "expiration_timestamp \<lparr>ordinal = 738895, hour = h, minute = 0, second = 0, microsecond = 0\<rparr>
     = Some 1704949200"
  by (simp add: expiration_timestamp_def expiration_datetime_def add_days_def combine_date_def
      int_timestamp_def epoch_seconds_def Let_def MINORDINAL_def MAXORDINAL_def EPOCH_ORDINAL_def)


text \<open>
  Claim C5, first half as stated: a completion at 2024-01-10T23:00:00Z would expire at
  2024-01-12T05:00:00Z. The handler gives another time.
\<close>

theorem expiration_2024_01_10_counterexample:
  "Option.bind (utc_datetime 2024 1 10 23 0 0) expiration_timestamp
     \<noteq> map_option int_timestamp (utc_datetime 2024 1 12 5 0 0)"
  by (simp add: utc_datetime_2024_01_10_23 utc_datetime_2024_01_12_05
      expiration_timestamp_concrete int_timestamp_def epoch_seconds_def EPOCH_ORDINAL_def)

text \<open>
  Claim C5, amended. The expiry computed for a completion at 2024-01-10T23:00:00Z is
  2024-01-11T05:00:00Z, and the expiry computed for a completion at
  2024-01-10T02:00:00Z is 2024-01-11T05:00:00Z as well: both are five o'clock on the
  day after the completion date.
\<close>

theorem expiration_2024_01_10_examples:
  "Option.bind (utc_datetime 2024 1 10 23 0 0) expiration_timestamp
     = map_option int_timestamp (utc_datetime 2024 1 11 5 0 0)
   \<and> Option.bind (utc_datetime 2024 1 10 2 0 0) expiration_timestamp
     = map_option int_timestamp (utc_datetime 2024 1 11 5 0 0)
   \<and> map_option int_timestamp (utc_datetime 2024 1 11 5 0 0) = Some 1704949200"
  by (simp add: utc_datetime_2024_01_10_23 utc_datetime_2024_01_10_02
      utc_datetime_2024_01_11_05 expiration_timestamp_concrete int_timestamp_def
      epoch_seconds_def EPOCH_ORDINAL_def)

section \<open>Properties of the verification code\<close>

lemma choices_index_bound:
  assumes "0 < n"
  shows "(unat (w :: 53 word) * n) div 2 ^ 53 < n"
proof -
  have "unat w < 2 ^ 53" using unsigned_less [of w] by simp
  then have "unat w * n < 2 ^ 53 * n" using assms by simp
  then show ?thesis by (simp add: less_mult_imp_div_less mult.commute)
qed

lemma set_choices:
  "population \<noteq> [] \<Longrightarrow> set (choices rnd population k) \<subseteq> set population"
proof
  fix c
  assume ne: "population \<noteq> []" and "c \<in> set (choices rnd population k)"
  then obtain i where c: "c = population ! ((unat (rnd i) * length population) div 2 ^ 53)"
    unfolding choices_def by auto
  from ne have "(unat (rnd i) * length population) div 2 ^ 53 < length population"
    by (intro choices_index_bound) simp
  then show "c \<in> set population" unfolding c by (rule nth_mem)
qed

lemma length_choices: "length (choices rnd population k) = k"
  by (simp add: choices_def)

lemma upt_7: "[0..<7] = [0, 1, 2, 3, 4, 5, 6]"
  by (simp add: upt_rec)

lemma stuck_rnd_index: "(unat (3940649673949184 :: 53 word) * 34) div 2 ^ 53 = 14"
  by simp

lemma stuck_code: "generate_short_id 7 stuck_rnd = ''OOOOOOO''"
  unfolding generate_short_id_def choices_def ascii_uppercase_def Let_def upt_7 stuck_rnd_def
  by (simp add: stuck_rnd_index)

text \<open>
  Claim C9 as stated: no generated code contains \<open>O\<close> or \<open>I\<close>. With a random source that
  returns 0.4375 at every draw the code is seven times the letter \<open>O\<close>.
\<close>

theorem generate_short_id_counterexample:
  "generate_short_id 7 stuck_rnd = ''OOOOOOO''"
  by (rule stuck_code)

text \<open>
  Claim C9, amended. Every generated verification code has exactly 7 characters, each
  one of the 26 uppercase letters (\<open>O\<close> and \<open>I\<close> among them) or of the digits 2 to 9; no
  lowercase letter and neither of the digits 0 and 1 occurs.
\<close>

theorem generate_short_id_alphabet:
  "length (generate_short_id 7 rnd) = 7
   \<and> set (generate_short_id 7 rnd) \<subseteq> set ''ABCDEFGHIJKLMNOPQRSTUVWXYZ23456789''
   \<and> set (generate_short_id 7 rnd) \<inter> set ''abcdefghijklmnopqrstuvwxyz01'' = {}"
proof -
  have s: "set (generate_short_id 7 rnd) \<subseteq> set (ascii_uppercase @ ''23456789'')"
    unfolding generate_short_id_def Let_def by (rule set_choices) (simp add: ascii_uppercase_def)
  have d: "set (ascii_uppercase @ ''23456789'') \<inter> set ''abcdefghijklmnopqrstuvwxyz01'' = {}"
    by (simp add: ascii_uppercase_def)
  have l: "length (generate_short_id 7 rnd) = 7"
    by (simp add: generate_short_id_def length_choices)
  from s d l show ?thesis by (auto simp: ascii_uppercase_def)
qed

theorem generate_short_id_alphabet_witness:
  "length (generate_short_id 7 stuck_rnd) = 7
   \<and> set (generate_short_id 7 stuck_rnd) \<subseteq> set ''ABCDEFGHIJKLMNOPQRSTUVWXYZ23456789''
   \<and> set (generate_short_id 7 stuck_rnd) \<inter> set ''abcdefghijklmnopqrstuvwxyz01'' = {}"
  using generate_short_id_alphabet [of stuck_rnd] by simp

section \<open>Properties of the validation rules\<close>

lemma fromtimestamp_utc_None:
  "(fromtimestamp_utc t = None) = (\<not> representable (Some t))"
proof -
  have a: "(1 \<le> t div 86400 + 719163) = (- 62135596800 \<le> t)" by arith
  have b: "(t div 86400 + 719163 \<le> 3652059) = (t \<le> 253402300799)" by arith
  show ?thesis
    by (auto simp: fromtimestamp_utc_def representable_def Let_def MINORDINAL_def MAXORDINAL_def
        EPOCH_ORDINAL_def a b)
qed

lemma redeemed_reason_representable:
  assumes "representable ts"
  shows "\<exists>rest. redeemed_reason ts = Inr (''Ticket has already been redeemed'' @ rest)"
proof (cases "ts = None \<or> ts = Some 0")
  case True
  then show ?thesis by (auto simp: redeemed_reason_def)
next
  case False
  then obtain t where t: "ts = Some t" "t \<noteq> 0" by auto
  with assms fromtimestamp_utc_None [of t] obtain dt where "fromtimestamp_utc t = Some dt"
    by auto
  with t show ?thesis by (simp add: redeemed_reason_def)
qed

lemma evaluate_not_completed:
  "status it \<noteq> Some ''completed'' \<Longrightarrow>
   evaluate it now =
     Inr (False, ''Ticket status is not 'completed'. Payment might be pending or failed.'')"
  by (simp add: evaluate_def)

lemma evaluate_redeemed:
  "status it = Some ''completed'' \<Longrightarrow> redeemed it = Some True \<Longrightarrow>
   evaluate it now =
     (case redeemed_reason (redeemedTime it) of Inl e \<Rightarrow> Inl e | Inr r \<Rightarrow> Inr (False, r))"
  by (simp add: evaluate_def get_or_def)

lemma evaluate_expired:
  "status it = Some ''completed'' \<Longrightarrow> redeemed it \<noteq> Some True \<Longrightarrow>
   now > get_or (expirationTime it) 0 \<Longrightarrow>
   evaluate it now = Inr (False, ''Ticket has expired (past 5 AM UTC next day).'')"
  by (cases "redeemed it") (auto simp: evaluate_def get_or_def)

lemma evaluate_window:
  "status it = Some ''completed'' \<Longrightarrow> redeemed it \<noteq> Some True \<Longrightarrow>
   now \<le> get_or (expirationTime it) 0 \<Longrightarrow> now > get_or (creationTime it) 0 + 7200 \<Longrightarrow>
   evaluate it now =
     Inr (False,
       ''Ticket is no longer valid (exceeded 2-hour validation window from purchase).'')"
  by (cases "redeemed it") (auto simp: evaluate_def get_or_def)

lemma evaluate_valid:
  "status it = Some ''completed'' \<Longrightarrow> redeemed it \<noteq> Some True \<Longrightarrow>
   now \<le> get_or (expirationTime it) 0 \<Longrightarrow> now \<le> get_or (creationTime it) 0 + 7200 \<Longrightarrow>
   evaluate it now = Inr (True, ''Ticket is valid.'')"
  by (cases "redeemed it") (auto simp: evaluate_def get_or_def)

lemma evaluate_valid_iff:
  "(\<exists>r. evaluate it now = Inr (True, r)) =
   (status it = Some ''completed'' \<and> redeemed it \<noteq> Some True
    \<and> now \<le> get_or (expirationTime it) 0 \<and> now \<le> get_or (creationTime it) 0 + 7200)"
  by (cases "redeemed it")
    (auto simp: evaluate_def get_or_def Let_def split: sum.splits)

text \<open>
  Claim C2. For every record snapshot and every current time the verdict follows the
  rules in their order, the first failing rule deciding: (1) a status other than
  \<open>completed\<close> is invalid, payment not completed, whatever the time; (2) else a record
  already redeemed is invalid, with the already-redeemed reason (given that the stored
  redemption time can be formatted as a date; it is never valid); (3) else a time past
  \<open>expirationTime\<close> is invalid, expired, whether or not the two-hour window has passed;
  (4) else a time past \<open>creationTime\<close> plus two hours is invalid, window exceeded;
  (5) otherwise the record is valid.
\<close>

theorem evaluate_rules_in_order:
  "(status it \<noteq> Some ''completed'' \<longrightarrow>
      evaluate it now =
        Inr (False, ''Ticket status is not 'completed'. Payment might be pending or failed.''))
   \<and> (status it = Some ''completed'' \<and> redeemed it = Some True \<longrightarrow>
        (\<forall>r. evaluate it now \<noteq> Inr (True, r))
        \<and> (representable (redeemedTime it) \<longrightarrow>
             (\<exists>rest. evaluate it now
                = Inr (False, ''Ticket has already been redeemed'' @ rest))))
   \<and> (status it = Some ''completed'' \<and> redeemed it \<noteq> Some True
        \<and> now > get_or (expirationTime it) 0 \<longrightarrow>
        evaluate it now = Inr (False, ''Ticket has expired (past 5 AM UTC next day).''))
   \<and> (status it = Some ''completed'' \<and> redeemed it \<noteq> Some True
        \<and> now \<le> get_or (expirationTime it) 0
        \<and> now > get_or (creationTime it) 0 + 2 * 60 * 60 \<longrightarrow>
        evaluate it now =
          Inr (False,
            ''Ticket is no longer valid (exceeded 2-hour validation window from purchase).''))
   \<and> (status it = Some ''completed'' \<and> redeemed it \<noteq> Some True
        \<and> now \<le> get_or (expirationTime it) 0
        \<and> now \<le> get_or (creationTime it) 0 + 2 * 60 * 60 \<longrightarrow>
        evaluate it now = Inr (True, ''Ticket is valid.''))"
proof (intro conjI impI allI)
  assume "status it \<noteq> Some ''completed''"
  then show "evaluate it now =
      Inr (False, ''Ticket status is not 'completed'. Payment might be pending or failed.'')"
    by (rule evaluate_not_completed)
next
  fix r
  assume "status it = Some ''completed'' \<and> redeemed it = Some True"
  then show "evaluate it now \<noteq> Inr (True, r)"
    using evaluate_valid_iff [of it now] by auto
next
  assume a: "status it = Some ''completed'' \<and> redeemed it = Some True"
    and "representable (redeemedTime it)"
  then obtain rest where
    "redeemed_reason (redeemedTime it) = Inr (''Ticket has already been redeemed'' @ rest)"
    using redeemed_reason_representable by blast
  with a show "\<exists>rest. evaluate it now = Inr (False, ''Ticket has already been redeemed'' @ rest)"
    using evaluate_redeemed [of it now] by auto
next
  assume "status it = Some ''completed'' \<and> redeemed it \<noteq> Some True
    \<and> now > get_or (expirationTime it) 0"
  then show "evaluate it now = Inr (False, ''Ticket has expired (past 5 AM UTC next day).'')"
    using evaluate_expired by blast
next
  assume "status it = Some ''completed'' \<and> redeemed it \<noteq> Some True
    \<and> now \<le> get_or (expirationTime it) 0 \<and> now > get_or (creationTime it) 0 + 2 * 60 * 60"
  then show "evaluate it now =
      Inr (False,
        ''Ticket is no longer valid (exceeded 2-hour validation window from purchase).'')"
    using evaluate_window [of it now] by simp
next
  assume "status it = Some ''completed'' \<and> redeemed it \<noteq> Some True
    \<and> now \<le> get_or (expirationTime it) 0 \<and> now \<le> get_or (creationTime it) 0 + 2 * 60 * 60"
  then show "evaluate it now = Inr (True, ''Ticket is valid.'')"
    using evaluate_valid [of it now] by simp
qed

text \<open>The rules at work: a pending record at any time; a redeemed record; a record
  whose expiry (here 40 minutes after its creation) has passed while the two-hour
  window is still open; the ticket one second after its window; the ticket at the last
  second of its window.\<close>

theorem evaluate_rules_in_order_witness:
  "evaluate (ticket\<lparr>status := Some ''pending''\<rparr>) 1704927601 =
     Inr (False, ''Ticket status is not 'completed'. Payment might be pending or failed.'')
   \<and> (\<exists>rest. evaluate (ticket\<lparr>redeemed := Some True, redeemedTime := Some 1704928200\<rparr>)
         1704928800 = Inr (False, ''Ticket has already been redeemed'' @ rest))
   \<and> evaluate (ticket\<lparr>expirationTime := Some 1704930000\<rparr>) 1704930001 =
       Inr (False, ''Ticket has expired (past 5 AM UTC next day).'')
   \<and> evaluate ticket 1704934801 =
       Inr (False,
         ''Ticket is no longer valid (exceeded 2-hour validation window from purchase).'')
   \<and> evaluate ticket 1704934800 = Inr (True, ''Ticket is valid.'')"
  using evaluate_rules_in_order [of "ticket\<lparr>status := Some ''pending''\<rparr>" 1704927601]
    evaluate_rules_in_order
      [of "ticket\<lparr>redeemed := Some True, redeemedTime := Some 1704928200\<rparr>" 1704928800]
    evaluate_rules_in_order [of "ticket\<lparr>expirationTime := Some 1704930000\<rparr>" 1704930001]
    evaluate_rules_in_order [of ticket 1704934801]
    evaluate_rules_in_order [of ticket 1704934800]
  by (simp add: ticket_def get_or_def representable_def)

section \<open>Properties of the validation handler\<close>

lemma query_index_Cons:
  "query_index attr v t = it # rest \<Longrightarrow> it \<in> set t \<and> attr it = Some v"
proof -
  assume "query_index attr v t = it # rest"
  then have "it \<in> set (query_index attr v t)" by simp
  then show ?thesis by (simp add: query_index_def)
qed

lemma query_index_map:
  "(\<And>x. attr (g x) = attr x) \<Longrightarrow> query_index attr v (map g t) = map g (query_index attr v t)"
  unfolding query_index_def by (induction t) auto

text \<open>What the first half returns when it hands over to the second.\<close>

lemma validate_read_Inr:
  assumes "validate_read f ev t now = Inr e"
  shows "\<exists>code rest. httpMethod ev \<noteq> Some ''OPTIONS'' \<and> body ev = Parsed (Some code) \<and> code \<noteq> []
           \<and> \<not> query_fault f
           \<and> query_index verificationId code t = e_item e # rest
           \<and> evaluate (e_item e) now = Inr (e_is_valid e, e_reason e)
           \<and> e_verification_id e = code \<and> e_current_time_utc e = now"
  using assms unfolding validate_read_def
  by (auto split: if_splits request_body.splits list.splits sum.splits prod.splits)

lemma validate_read_found:
  assumes "httpMethod ev \<noteq> Some ''OPTIONS''" "body ev = Parsed (Some code)" "code \<noteq> []"
    "\<not> query_fault f" "query_index verificationId code t = it # rest"
  shows "validate_read f ev t now =
     (case evaluate it now of
        Inl x \<Rightarrow> Inl internal_server_error
      | Inr (is_valid, reason) \<Rightarrow>
          Inr \<lparr>e_item = it, e_verification_id = code, e_current_time_utc = now,
               e_is_valid = is_valid, e_reason = reason\<rparr>)"
  using assms unfolding validate_read_def by (simp split: sum.splits)

lemma validate_read_not_found:
  assumes "httpMethod ev \<noteq> Some ''OPTIONS''" "body ev = Parsed (Some code)" "code \<noteq> []"
    "\<not> query_fault f" "query_index verificationId code t = []"
  shows "validate_read f ev t now =
     Inl (create_response 404 (Message ''Ticket not found.'' False ''Ticket not found''))"
  using assms unfolding validate_read_def by simp

lemma validate_write_invalid:
  assumes "\<not> e_is_valid e"
  shows "validate_write f e t n =
     (create_response 200 (Data (response_data_of e False (e_reason e)
        (get_or (redeemed (e_item e)) False) (redeemedTime (e_item e)) ''none'')), t)"
  using assms unfolding validate_write_def by (simp add: Let_def)


lemma validate_write_conflict:
  assumes "e_is_valid e"
    "redeem_update (update_fault f) (donationId (e_item e)) n t
       = Inl (ClientError ''ConditionalCheckFailedException'')"
  shows "validate_write f e t n =
     (create_response 200 (Data (response_data_of e False
        ''Ticket has already been redeemed by another process.''
        (get_or (redeemed (e_item e)) False) (redeemedTime (e_item e))
        ''failed_redeem_concurrent'')), t)"
  using assms unfolding validate_write_def by (simp add: Let_def)

lemma validate_write_client_error:
  assumes "e_is_valid e"
    "redeem_update (update_fault f) (donationId (e_item e)) n t = Inl (ClientError code)"
    "code \<noteq> ''ConditionalCheckFailedException''"
  shows "validate_write f e t n = (internal_server_error, t)"
  using assms unfolding validate_write_def by (simp add: Let_def)

lemma validate_write_exception:
  assumes "e_is_valid e"
    "redeem_update (update_fault f) (donationId (e_item e)) n t = Inl Exception"
  shows "validate_write f e t n =
     (create_response 200 (Data (response_data_of e False
        ''Internal error during ticket redemption.''
        (get_or (redeemed (e_item e)) False) (redeemedTime (e_item e))
        ''failed_redeem_general'')), t)"
  using assms unfolding validate_write_def by (simp add: Let_def)

text \<open>Only a response with the action \<open>redeemed\<close> comes with a write.\<close>

lemma validate_write_redeemed:
  assumes "body_action (response_body (fst (validate_write f e t n))) = Some ''redeemed''"
  shows "e_is_valid e \<and> (\<exists>t'. redeem_update (update_fault f) (donationId (e_item e)) n t = Inr t'
           \<and> snd (validate_write f e t n) = t')"
  using assms unfolding validate_write_def
  by (auto simp: Let_def create_response_def response_data_of_def internal_server_error_def
      split: if_splits sum.splits exn.splits)

lemma validate_write_unchanged:
  assumes "body_action (response_body (fst (validate_write f e t n))) \<noteq> Some ''redeemed''"
  shows "snd (validate_write f e t n) = t"
  using assms unfolding validate_write_def
  by (auto simp: Let_def create_response_def response_data_of_def internal_server_error_def
      split: if_splits sum.splits exn.splits)




lemma redeem_update_Inr:
  assumes "it \<in> set t" "donationId it = k" "redeem_update fault k n t = Inr t'"
  shows "t' = map (mark_redeemed k n) t"
proof -
  from assms(1,2) have "it \<in> set (filter (\<lambda>x. donationId x = k) t)" by simp
  then obtain x xs where "filter (\<lambda>x. donationId x = k) t = x # xs"
    by (cases "filter (\<lambda>x. donationId x = k) t") auto
  with assms(3) show ?thesis
    unfolding redeem_update_def conditional_update_item_def mark_redeemed_def
    by (auto split: option.splits if_splits intro!: map_cong)
qed

lemma validate_ticket_Inl:
  "validate_read f ev t n1 = Inl r \<Longrightarrow> validate_ticket f ev t n1 n2 = (r, t)"
  by (simp add: validate_ticket_def)

lemma validate_ticket_Inr:
  "validate_read f ev t n1 = Inr e \<Longrightarrow> validate_ticket f ev t n1 n2 = validate_write f e t n2"
  by (simp add: validate_ticket_def)

lemma validate_read_Inl_action:
  "validate_read f ev t n1 = Inl r \<Longrightarrow> body_action (response_body r) = None"
  unfolding validate_read_def
  by (auto simp: create_response_def internal_server_error_def
      split: if_splits request_body.splits list.splits sum.splits prod.splits)

text \<open>What a response with the action \<open>redeemed\<close> tells about the invocation.\<close>

lemma validate_ticket_redeemed:
  assumes "validate_ticket f ev t n1 n2 = (r, t')"
    "body_action (response_body r) = Some ''redeemed''"
  shows "\<exists>code it rest reason. httpMethod ev \<noteq> Some ''OPTIONS'' \<and> body ev = Parsed (Some code)
           \<and> code \<noteq> [] \<and> query_index verificationId code t = it # rest
           \<and> evaluate it n1 = Inr (True, reason)
           \<and> t' = map (mark_redeemed (donationId it) n2) t"
proof (cases "validate_read f ev t n1")
  case (Inl r')
  with assms validate_ticket_Inl [OF Inl, of n2] validate_read_Inl_action [OF Inl]
  show ?thesis by simp
next
  case (Inr e)
  with assms have w: "validate_write f e t n2 = (r, t')" by (simp add: validate_ticket_Inr)
  with assms(2) validate_write_redeemed [of f e t n2]
  have v: "e_is_valid e"
    and u: "redeem_update (update_fault f) (donationId (e_item e)) n2 t = Inr t'" by auto
  from validate_read_Inr [OF Inr] obtain code rest where
    c: "httpMethod ev \<noteq> Some ''OPTIONS''" "body ev = Parsed (Some code)" "code \<noteq> []"
      "query_index verificationId code t = e_item e # rest"
      "evaluate (e_item e) n1 = Inr (e_is_valid e, e_reason e)" by blast
  from query_index_Cons [OF c(4)] have "e_item e \<in> set t" by simp
  from redeem_update_Inr [OF this refl u] c v show ?thesis by auto
qed

text \<open>The calls with a code that do not redeem.\<close>

lemma validate_ticket_not_redeeming:
  assumes "httpMethod ev \<noteq> Some ''OPTIONS''" and "body ev = Parsed (Some code)"
    and "code \<noteq> []" and "\<not> query_fault f"
  shows "(query_index verificationId code t = [] \<longrightarrow>
            validate_ticket f ev t n1 n2 =
              (create_response 404 (Message ''Ticket not found.'' False ''Ticket not found''), t))
       \<and> (\<forall>it rest reason.
            query_index verificationId code t = it # rest \<and> evaluate it n1 = Inr (False, reason)
            \<longrightarrow> (\<exists>d. validate_ticket f ev t n1 n2 = (create_response 200 (Data d), t)
                   \<and> r_valid d = False \<and> r_reason d = reason \<and> r_actionTaken d = ''none''))
       \<and> (\<forall>f0 n0 n0' t0 r0.
            validate_ticket f0 ev t0 n0 n0' = (r0, t)
            \<and> body_action (response_body r0) = Some ''redeemed''
            \<and> representable (Some n0')
            \<longrightarrow> (\<exists>d rest. validate_ticket f ev t n1 n2 = (create_response 200 (Data d), t)
                   \<and> r_valid d = False \<and> r_actionTaken d = ''none''
                   \<and> r_reason d = ''Ticket has already been redeemed'' @ rest))"
proof (intro conjI impI allI)
  assume "query_index verificationId code t = []"
  from validate_read_not_found [OF assms this]
  show "validate_ticket f ev t n1 n2 =
      (create_response 404 (Message ''Ticket not found.'' False ''Ticket not found''), t)"
    by (simp add: validate_ticket_def)
next
  fix it rest reason
  assume a: "query_index verificationId code t = it # rest \<and> evaluate it n1 = Inr (False, reason)"
  define e where "e = \<lparr>e_item = it, e_verification_id = code, e_current_time_utc = n1,
    e_is_valid = False, e_reason = reason\<rparr>"
  from a validate_read_found [OF assms, of t it rest n1]
  have "validate_read f ev t n1 = Inr e" by (simp add: e_def)
  then have "validate_ticket f ev t n1 n2 = validate_write f e t n2"
    by (rule validate_ticket_Inr)
  also have "\<dots> = (create_response 200 (Data (response_data_of e False (e_reason e)
        (get_or (redeemed (e_item e)) False) (redeemedTime (e_item e)) ''none'')), t)"
    by (rule validate_write_invalid) (simp add: e_def)
  finally have "validate_ticket f ev t n1 n2 = (create_response 200 (Data (response_data_of e
      False (e_reason e) (get_or (redeemed (e_item e)) False) (redeemedTime (e_item e))
      ''none'')), t)" .
  then show "\<exists>d. validate_ticket f ev t n1 n2 = (create_response 200 (Data d), t)
      \<and> r_valid d = False \<and> r_reason d = reason \<and> r_actionTaken d = ''none''"
    by (intro exI [of _ "response_data_of e False (e_reason e)
      (get_or (redeemed (e_item e)) False) (redeemedTime (e_item e)) ''none''"])
      (simp add: response_data_of_def e_def)
next
  fix f0 n0 n0' t0 r0
  assume a: "validate_ticket f0 ev t0 n0 n0' = (r0, t)
    \<and> body_action (response_body r0) = Some ''redeemed'' \<and> representable (Some n0')"
  then obtain code' it rest reason where
    b: "body ev = Parsed (Some code')" "query_index verificationId code' t0 = it # rest"
      "evaluate it n0 = Inr (True, reason)" "t = map (mark_redeemed (donationId it) n0') t0"
    using validate_ticket_redeemed [of f0 ev t0 n0 n0' r0 t] by blast
  with assms have [simp]: "code' = code" by simp
  define it' where "it' = it\<lparr>redeemed := Some True, redeemedTime := Some n0'\<rparr>"
  have "query_index verificationId code t
      = map (mark_redeemed (donationId it) n0') (query_index verificationId code t0)"
    unfolding b(4) by (rule query_index_map) (simp add: mark_redeemed_def)
  with b(2) have q: "query_index verificationId code t
      = it' # map (mark_redeemed (donationId it) n0') rest"
    by (simp add: mark_redeemed_def it'_def)
  from b(3) evaluate_valid_iff [of it n0] have "status it = Some ''completed''" by blast
  then have s: "status it' = Some ''completed''" "redeemed it' = Some True"
    "redeemedTime it' = Some n0'" by (simp_all add: it'_def)
  from a redeemed_reason_representable [of "Some n0'"] obtain rest' where
    "redeemed_reason (Some n0') = Inr (''Ticket has already been redeemed'' @ rest')" by blast
  with s evaluate_redeemed [of it' n1]
  have ev: "evaluate it' n1 = Inr (False, ''Ticket has already been redeemed'' @ rest')"
    by simp
  define e where "e = \<lparr>e_item = it', e_verification_id = code, e_current_time_utc = n1,
    e_is_valid = False, e_reason = ''Ticket has already been redeemed'' @ rest'\<rparr>"
  from ev validate_read_found [OF assms q, of n1]
  have "validate_read f ev t n1 = Inr e" by (simp add: e_def)
  then have "validate_ticket f ev t n1 n2 = validate_write f e t n2"
    by (rule validate_ticket_Inr)
  also have "\<dots> = (create_response 200 (Data (response_data_of e False (e_reason e)
        (get_or (redeemed (e_item e)) False) (redeemedTime (e_item e)) ''none'')), t)"
    by (rule validate_write_invalid) (simp add: e_def)
  finally have "validate_ticket f ev t n1 n2 = (create_response 200 (Data (response_data_of e
      False (e_reason e) (get_or (redeemed (e_item e)) False) (redeemedTime (e_item e))
      ''none'')), t)" .
  then show "\<exists>d rest. validate_ticket f ev t n1 n2 = (create_response 200 (Data d), t)
      \<and> r_valid d = False \<and> r_actionTaken d = ''none''
      \<and> r_reason d = ''Ticket has already been redeemed'' @ rest"
    by (intro exI [of _ "response_data_of e False (e_reason e)
      (get_or (redeemed (e_item e)) False) (redeemedTime (e_item e)) ''none''"] exI [of _ rest'])
      (simp add: response_data_of_def e_def)
qed

lemma validate_ticket_frame:
  assumes "body_action (response_body (fst (validate_ticket f ev t n1 n2))) \<noteq> Some ''redeemed''"
  shows "snd (validate_ticket f ev t n1 n2) = t"
proof (cases "validate_read f ev t n1")
  case (Inl r)
  then show ?thesis by (simp add: validate_ticket_def)
next
  case (Inr e)
  with assms validate_write_unchanged [of f e t n2] show ?thesis
    by (simp add: validate_ticket_def)
qed

text \<open>
  Claim C7. No redemption call writes to the table unless it answers with the action
  \<open>redeemed\<close>. For a request that carries a code (and a query that does not raise): an
  unknown code ends in the not-found result (status 404) and leaves the table as it is;
  a record that evaluates as invalid gets that verdict with the action \<open>none\<close> and
  the table stays as it is; after a call that redeemed a ticket, a second call with the
  same code returns \<open>valid = False\<close>, the action \<open>none\<close> and the already-redeemed
  reason, and changes nothing.
\<close>

theorem invalid_or_unknown_leaves_store_unchanged:
  "(body_action (response_body (fst (validate_ticket f ev t n1 n2))) \<noteq> Some ''redeemed''
      \<longrightarrow> snd (validate_ticket f ev t n1 n2) = t)
   \<and> (httpMethod ev \<noteq> Some ''OPTIONS'' \<and> body ev = Parsed (Some code) \<and> code \<noteq> []
        \<and> \<not> query_fault f \<longrightarrow>
        (query_index verificationId code t = [] \<longrightarrow>
            validate_ticket f ev t n1 n2 =
              (create_response 404 (Message ''Ticket not found.'' False ''Ticket not found''), t))
        \<and> (\<forall>it rest reason.
             query_index verificationId code t = it # rest \<and> evaluate it n1 = Inr (False, reason)
             \<longrightarrow> (\<exists>d. validate_ticket f ev t n1 n2 = (create_response 200 (Data d), t)
                    \<and> r_valid d = False \<and> r_reason d = reason \<and> r_actionTaken d = ''none''))
        \<and> (\<forall>f0 n0 n0' t0 r0.
             validate_ticket f0 ev t0 n0 n0' = (r0, t)
             \<and> body_action (response_body r0) = Some ''redeemed''
             \<and> representable (Some n0')
             \<longrightarrow> (\<exists>d rest. validate_ticket f ev t n1 n2 = (create_response 200 (Data d), t)
                    \<and> r_valid d = False \<and> r_actionTaken d = ''none''
                    \<and> r_reason d = ''Ticket has already been redeemed'' @ rest)))"
proof (intro conjI)
  show "body_action (response_body (fst (validate_ticket f ev t n1 n2))) \<noteq> Some ''redeemed''
      \<longrightarrow> snd (validate_ticket f ev t n1 n2) = t"
    using validate_ticket_frame by blast
next
  show "httpMethod ev \<noteq> Some ''OPTIONS'' \<and> body ev = Parsed (Some code) \<and> code \<noteq> []
        \<and> \<not> query_fault f \<longrightarrow>
        (query_index verificationId code t = [] \<longrightarrow>
            validate_ticket f ev t n1 n2 =
              (create_response 404 (Message ''Ticket not found.'' False ''Ticket not found''), t))
        \<and> (\<forall>it rest reason.
             query_index verificationId code t = it # rest \<and> evaluate it n1 = Inr (False, reason)
             \<longrightarrow> (\<exists>d. validate_ticket f ev t n1 n2 = (create_response 200 (Data d), t)
                    \<and> r_valid d = False \<and> r_reason d = reason \<and> r_actionTaken d = ''none''))
        \<and> (\<forall>f0 n0 n0' t0 r0.
             validate_ticket f0 ev t0 n0 n0' = (r0, t)
             \<and> body_action (response_body r0) = Some ''redeemed''
             \<and> representable (Some n0')
             \<longrightarrow> (\<exists>d rest. validate_ticket f ev t n1 n2 = (create_response 200 (Data d), t)
                    \<and> r_valid d = False \<and> r_actionTaken d = ''none''
                    \<and> r_reason d = ''Ticket has already been redeemed'' @ rest))"
    using validate_ticket_not_redeeming [of ev code f t n1 n2] by blast
qed

lemma first_redemption:
  "validate_ticket no_faults scan [ticket] 1704928200 1704928201
     = (create_response 200 (Data (response_data_of valid_snapshot True
          ''Ticket is valid and has been redeemed.'' True (Some 1704928201) ''redeemed'')),
        [redeemed_ticket])"
  by code_simp

lemma expired_evaluation:
  "query_index verificationId ''ABC2345'' [ticket] = [ticket]
   \<and> evaluate ticket 1704949201 = Inr (False, ''Ticket has expired (past 5 AM UTC next day).'')"
  by code_simp

theorem invalid_or_unknown_leaves_store_unchanged_witness:
  "validate_ticket no_faults \<lparr>httpMethod = Some ''POST'', body = Parsed (Some ''ZZZ9999'')\<rparr>
      [ticket] 1704928200 1704928201
     = (create_response 404 (Message ''Ticket not found.'' False ''Ticket not found''), [ticket])
   \<and> (\<exists>d. validate_ticket no_faults scan [ticket] 1704949201 1704949202
            = (create_response 200 (Data d), [ticket])
          \<and> r_valid d = False
          \<and> r_reason d = ''Ticket has expired (past 5 AM UTC next day).''
          \<and> r_actionTaken d = ''none'')
   \<and> (\<exists>d rest. validate_ticket no_faults scan [redeemed_ticket] 1704928800 1704928801
            = (create_response 200 (Data d), [redeemed_ticket])
          \<and> r_valid d = False \<and> r_actionTaken d = ''none''
          \<and> r_reason d = ''Ticket has already been redeemed'' @ rest)"
proof -
  have h: "httpMethod scan \<noteq> Some ''OPTIONS''" "body scan = Parsed (Some ''ABC2345'')"
    "''ABC2345'' \<noteq> []" "\<not> query_fault no_faults"
    by (simp_all add: scan_def no_faults_def)
  have a: "validate_ticket no_faults
      \<lparr>httpMethod = Some ''POST'', body = Parsed (Some ''ZZZ9999'')\<rparr>
      [ticket] 1704928200 1704928201
     = (create_response 404 (Message ''Ticket not found.'' False ''Ticket not found''), [ticket])"
    using invalid_or_unknown_leaves_store_unchanged
      [of no_faults "\<lparr>httpMethod = Some ''POST'', body = Parsed (Some ''ZZZ9999'')\<rparr>"
        "[ticket]" 1704928200 1704928201 "''ZZZ9999''"]
    by (simp add: no_faults_def query_index_def ticket_def)
  have b: "\<exists>d. validate_ticket no_faults scan [ticket] 1704949201 1704949202
            = (create_response 200 (Data d), [ticket])
          \<and> r_valid d = False
          \<and> r_reason d = ''Ticket has expired (past 5 AM UTC next day).''
          \<and> r_actionTaken d = ''none''"
    using invalid_or_unknown_leaves_store_unchanged
      [of no_faults scan "[ticket]" 1704949201 1704949202 "''ABC2345''"] h
      expired_evaluation by blast
  have r: "body_action (response_body (create_response 200 (Data (response_data_of
      valid_snapshot True ''Ticket is valid and has been redeemed.'' True (Some 1704928201)
      ''redeemed'')))) = Some ''redeemed''"
    by (simp add: create_response_def response_data_of_def)
  have p: "representable (Some 1704928201)" by (simp add: representable_def)
  have c: "\<exists>d rest. validate_ticket no_faults scan [redeemed_ticket] 1704928800 1704928801
            = (create_response 200 (Data d), [redeemed_ticket])
          \<and> r_valid d = False \<and> r_actionTaken d = ''none''
          \<and> r_reason d = ''Ticket has already been redeemed'' @ rest"
    using invalid_or_unknown_leaves_store_unchanged
      [of no_faults scan "[redeemed_ticket]" 1704928800 1704928801 "''ABC2345''"] h
      first_redemption r p
    by blast
  from a b c show ?thesis by blast
qed

text \<open>
  Claim C6 as stated: any storage failure of the write other than the conflict gives
  the action \<open>failed_redeem_general\<close>. When the table throttles the write (a ClientError
  that is not the failed condition), the handler raises it again and the outer handler
  answers with status 500, the reason \<open>Internal server error\<close> and no action.
\<close>

theorem throttled_write_counterexample:
  "validate_ticket throttled scan [ticket] 1704928200 1704928201
     = (create_response 500 (Message ''Internal server error.'' False ''Internal server error''),
        [ticket])"
  by code_simp

text \<open>
  Claim C6, amended. When the conditional redemption write fails, the caller always
  receives a structured result and the table is unchanged: the failed condition gives
  status 200 with \<open>valid = False\<close>, the reason that another process has redeemed the
  ticket and the action \<open>failed_redeem_concurrent\<close>; an exception that is not a
  ClientError gives status 200 with \<open>valid = False\<close>, the reason of an internal error
  during redemption and the action \<open>failed_redeem_general\<close>; any other ClientError is
  raised again and answered by the outer handler with status 500, \<open>valid = False\<close>, the
  reason \<open>Internal server error\<close> and no action.
\<close>

theorem failed_write_gives_structured_result:
  assumes "e_is_valid e"
    and "redeem_update (update_fault f) (donationId (e_item e)) redeem_timestamp t = Inl x"
  shows "snd (validate_write f e t redeem_timestamp) = t
       \<and> (x = ClientError ''ConditionalCheckFailedException'' \<longrightarrow>
            (\<exists>d. fst (validate_write f e t redeem_timestamp) = create_response 200 (Data d)
                 \<and> r_valid d = False
                 \<and> r_reason d = ''Ticket has already been redeemed by another process.''
                 \<and> r_actionTaken d = ''failed_redeem_concurrent''))
       \<and> (x = Exception \<longrightarrow>
            (\<exists>d. fst (validate_write f e t redeem_timestamp) = create_response 200 (Data d)
                 \<and> r_valid d = False
                 \<and> r_reason d = ''Internal error during ticket redemption.''
                 \<and> r_actionTaken d = ''failed_redeem_general''))
       \<and> (\<forall>code. x = ClientError code \<and> code \<noteq> ''ConditionalCheckFailedException'' \<longrightarrow>
            fst (validate_write f e t redeem_timestamp)
              = create_response 500
                  (Message ''Internal server error.'' False ''Internal server error''))"
proof (intro conjI impI allI)
  show "snd (validate_write f e t redeem_timestamp) = t"
    using assms unfolding validate_write_def
    by (auto simp: Let_def split: exn.splits)
next
  assume "x = ClientError ''ConditionalCheckFailedException''"
  with assms validate_write_conflict [of e f redeem_timestamp t]
  show "\<exists>d. fst (validate_write f e t redeem_timestamp) = create_response 200 (Data d)
      \<and> r_valid d = False
      \<and> r_reason d = ''Ticket has already been redeemed by another process.''
      \<and> r_actionTaken d = ''failed_redeem_concurrent''"
    by (intro exI [of _ "response_data_of e False
        ''Ticket has already been redeemed by another process.''
        (get_or (redeemed (e_item e)) False) (redeemedTime (e_item e))
        ''failed_redeem_concurrent''"]) (simp add: response_data_of_def)
next
  assume "x = Exception"
  with assms validate_write_exception [of e f redeem_timestamp t]
  show "\<exists>d. fst (validate_write f e t redeem_timestamp) = create_response 200 (Data d)
      \<and> r_valid d = False
      \<and> r_reason d = ''Internal error during ticket redemption.''
      \<and> r_actionTaken d = ''failed_redeem_general''"
    by (intro exI [of _ "response_data_of e False
        ''Internal error during ticket redemption.''
        (get_or (redeemed (e_item e)) False) (redeemedTime (e_item e))
        ''failed_redeem_general''"]) (simp add: response_data_of_def)
next
  fix code
  assume "x = ClientError code \<and> code \<noteq> ''ConditionalCheckFailedException''"
  with assms validate_write_client_error [of e f redeem_timestamp t code]
  show "fst (validate_write f e t redeem_timestamp)
      = create_response 500 (Message ''Internal server error.'' False ''Internal server error'')"
    by (simp add: internal_server_error_def)
qed

lemma conflict_on_redeemed_ticket:
  "redeem_update (update_fault no_faults) (donationId (e_item valid_snapshot)) 1704928205
     [redeemed_ticket] = Inl (ClientError ''ConditionalCheckFailedException'')"
  by code_simp

theorem failed_write_gives_structured_result_witness:
  "e_is_valid valid_snapshot
   \<and> snd (validate_write no_faults valid_snapshot [redeemed_ticket] 1704928205)
       = [redeemed_ticket]
   \<and> (\<exists>d. fst (validate_write no_faults valid_snapshot [redeemed_ticket] 1704928205)
            = create_response 200 (Data d)
          \<and> r_valid d = False
          \<and> r_reason d = ''Ticket has already been redeemed by another process.''
          \<and> r_actionTaken d = ''failed_redeem_concurrent'')"
proof -
  have h: "e_is_valid valid_snapshot" by (simp add: valid_snapshot_def)
  show ?thesis
    using failed_write_gives_structured_result [OF h conflict_on_redeemed_ticket] h by blast
qed

section \<open>Properties of the completion handler\<close>

text \<open>The table after the webhook handler: untouched, or the completion of the first
  record of the session.\<close>

lemma handle_stripe_webhook_table:
  assumes "handle_stripe_webhook f verified now_utc rnd t = Inr (r, t')"
  shows "t' = t \<or> (\<exists>k v e c em nm. t' = update_item k (complete_item v e c em nm) t)"
proof (cases "t' = t")
  case True
  then show ?thesis by simp
next
  case False
  with assms show ?thesis
    unfolding handle_stripe_webhook_def
    by (simp add: Let_def split: option.splits if_splits list.splits) blast+
qed


lemma handle_stripe_webhook_update_fails:
  assumes "event_type ev = ''checkout.session.completed''"
    "cs_customer_details (data_object ev) \<noteq> Null" "cs_amount_total (data_object ev) \<noteq> Null"
    "query_index checkoutSessionId (cs_id (data_object ev)) t \<noteq> []" "wf_update f"
  shows "handle_stripe_webhook f (Some ev) now_utc rnd t =
     Inr (webhook_error ''Internal server error'', t)"
  using assms unfolding handle_stripe_webhook_def
  by (auto simp: Let_def split: option.splits list.splits)

section \<open>Invariants of the store\<close>

lemma donationId_complete_item [simp]:
  "donationId (complete_item v e c em nm x) = donationId x"
  by (simp add: complete_item_def)

lemma donationId_mark_redeemed [simp]: "donationId (mark_redeemed k n x) = donationId x"
  by (simp add: mark_redeemed_def)

lemma store_invariant_iff:
  "store_invariant t =
     (distinct (map donationId t)
      \<and> (\<forall>it\<in>set t. redeemed_implies_completed it \<and> redeemed_implies_redeemedTime it))"
  by (simp add: store_invariant_def list_all_iff)

lemma store_invariant_map:
  assumes "store_invariant t" and k: "\<And>x. donationId (g x) = donationId x"
    and r: "\<And>x. x \<in> set t \<Longrightarrow> redeemed_implies_completed (g x) \<and> redeemed_implies_redeemedTime (g x)"
  shows "store_invariant (map g t)"
proof -
  have c: "donationId \<circ> g = donationId" using k by (simp add: fun_eq_iff)
  have m: "map donationId (map g t) = map donationId t" by (simp add: c)
  from assms(1) have d: "distinct (map donationId t)" by (simp add: store_invariant_iff)
  have d': "distinct (map donationId (map g t))" unfolding m by (rule d)
  have i': "\<forall>it\<in>set (map g t). redeemed_implies_completed it \<and> redeemed_implies_redeemedTime it"
    using r by simp
  show ?thesis unfolding store_invariant_iff using d' i' by blast
qed

lemma store_invariant_append:
  assumes "store_invariant t" "\<not> has_key (donationId x) t"
    "redeemed_implies_completed x \<and> redeemed_implies_redeemedTime x"
  shows "store_invariant (t @ [x])"
  using assms by (auto simp: store_invariant_iff has_key_def)

lemma store_invariant_update_item:
  assumes "store_invariant t"
  shows "store_invariant (update_item k (complete_item v e c em nm) t)"
proof (cases "has_key k t")
  case True
  have "store_invariant (map (\<lambda>x. if donationId x = k then complete_item v e c em nm x else x) t)"
    using assms
  proof (rule store_invariant_map)
    fix x
    show "donationId (if donationId x = k then complete_item v e c em nm x else x) = donationId x"
      by simp
  next
    fix x
    assume "x \<in> set t"
    with assms show "redeemed_implies_completed
        (if donationId x = k then complete_item v e c em nm x else x)
      \<and> redeemed_implies_redeemedTime
        (if donationId x = k then complete_item v e c em nm x else x)"
      by (auto simp: store_invariant_iff redeemed_implies_completed_def
          redeemed_implies_redeemedTime_def complete_item_def)
  qed
  with True show ?thesis by (simp add: update_item_def)
next
  case False
  have "store_invariant (t @ [complete_item v e c em nm (key_only k)])"
    using assms
  proof (rule store_invariant_append)
    show "\<not> has_key (donationId (complete_item v e c em nm (key_only k))) t"
      using False by (simp add: key_only_def)
  next
    show "redeemed_implies_completed (complete_item v e c em nm (key_only k))
      \<and> redeemed_implies_redeemedTime (complete_item v e c em nm (key_only k))"
      by (simp add: redeemed_implies_completed_def redeemed_implies_redeemedTime_def
          complete_item_def)
  qed
  with False show ?thesis by (simp add: update_item_def)
qed

lemma store_invariant_put_item:
  assumes "store_invariant t" "redeemed it = None"
  shows "store_invariant (put_item it t)"
proof (cases "has_key (donationId it) t")
  case True
  have "store_invariant (map (\<lambda>x. if donationId x = donationId it then it else x) t)"
    using assms(1)
  proof (rule store_invariant_map)
    fix x
    show "donationId (if donationId x = donationId it then it else x) = donationId x"
      by simp
  next
    fix x
    assume "x \<in> set t"
    with assms show "redeemed_implies_completed (if donationId x = donationId it then it else x)
      \<and> redeemed_implies_redeemedTime (if donationId x = donationId it then it else x)"
      by (auto simp: store_invariant_iff redeemed_implies_completed_def
          redeemed_implies_redeemedTime_def)
  qed
  with True show ?thesis by (simp add: put_item_def)
next
  case False
  have "store_invariant (t @ [it])"
    using assms(1) False
    by (rule store_invariant_append)
      (simp add: assms(2) redeemed_implies_completed_def redeemed_implies_redeemedTime_def)
  with False show ?thesis by (simp add: put_item_def)
qed

lemma store_invariant_mark_redeemed:
  assumes "store_invariant t" "it \<in> set t" "status it = Some ''completed''"
  shows "store_invariant (map (mark_redeemed (donationId it) n) t)"
  using assms(1)
proof (rule store_invariant_map)
  fix x
  show "donationId (mark_redeemed (donationId it) n x) = donationId x" by simp
next
  fix x
  assume x: "x \<in> set t"
  from assms(1) have d: "distinct (map donationId t)" by (simp add: store_invariant_iff)
  have "donationId x = donationId it \<Longrightarrow> x = it"
    using d assms(2) x by (meson distinct_map inj_onD)
  with assms x show "redeemed_implies_completed (mark_redeemed (donationId it) n x)
      \<and> redeemed_implies_redeemedTime (mark_redeemed (donationId it) n x)"
    by (auto simp: store_invariant_iff mark_redeemed_def redeemed_implies_completed_def
        redeemed_implies_redeemedTime_def)
qed

lemma process_donation_table:
  "snd (process_donation env ev t) = t
   \<or> (\<exists>it. snd (process_donation env ev t) = put_item it t
          \<and> redeemed it = None \<and> redeemedTime it = None)"
  unfolding process_donation_def
  by (auto simp: Let_def key_only_def split: donation_body.splits sum.splits option.splits)

lemma validate_ticket_table:
  "snd (validate_ticket f ev t n1 n2) = t
   \<or> (\<exists>it reason. it \<in> set t \<and> evaluate it n1 = Inr (True, reason)
         \<and> snd (validate_ticket f ev t n1 n2) = map (mark_redeemed (donationId it) n2) t)"
proof (cases "body_action (response_body (fst (validate_ticket f ev t n1 n2))) = Some ''redeemed''")
  case True
  obtain r t' where rt: "validate_ticket f ev t n1 n2 = (r, t')"
    by (cases "validate_ticket f ev t n1 n2")
  with True validate_ticket_redeemed [OF rt] obtain code it rest reason where
    "query_index verificationId code t = it # rest" "evaluate it n1 = Inr (True, reason)"
    "t' = map (mark_redeemed (donationId it) n2) t" by auto
  with rt query_index_Cons [of verificationId code t it rest] show ?thesis by auto
next
  case False
  show ?thesis
  proof (cases "validate_read f ev t n1")
    case (Inl r)
    then show ?thesis by (simp add: validate_ticket_def)
  next
    case (Inr e)
    with False validate_write_unchanged [of f e t n2] show ?thesis
      by (simp add: validate_ticket_def)
  qed
qed

lemma store_invariant_apply_operation:
  assumes "store_invariant t"
  shows "store_invariant (apply_operation op t)"
proof (cases op)
  case (CreatePending env ev)
  with assms process_donation_table [of env ev t] show ?thesis
    by (auto simp: store_invariant_put_item)
next
  case (CompletePurchase f verified now_utc rnd)
  show ?thesis
  proof (cases "handle_stripe_webhook f verified now_utc rnd t")
    case (Inl e)
    with assms CompletePurchase show ?thesis by simp
  next
    case (Inr p)
    then obtain r t' where "handle_stripe_webhook f verified now_utc rnd t = Inr (r, t')"
      by (cases p) auto
    with assms CompletePurchase handle_stripe_webhook_table [OF this] show ?thesis
      by (auto simp: store_invariant_update_item)
  qed
next
  case (Redeem f ev n1 n2)
  from validate_ticket_table [of f ev t n1 n2] show ?thesis
  proof
    assume "snd (validate_ticket f ev t n1 n2) = t"
    with assms Redeem show ?thesis by simp
  next
    assume "\<exists>it reason. it \<in> set t \<and> evaluate it n1 = Inr (True, reason)
         \<and> snd (validate_ticket f ev t n1 n2) = map (mark_redeemed (donationId it) n2) t"
    then obtain it reason where i: "it \<in> set t" "evaluate it n1 = Inr (True, reason)"
      "snd (validate_ticket f ev t n1 n2) = map (mark_redeemed (donationId it) n2) t" by blast
    from i(2) evaluate_valid_iff [of it n1] have "status it = Some ''completed''" by blast
    from store_invariant_mark_redeemed [OF assms i(1) this] i(3) Redeem show ?thesis by simp
  qed
qed

lemma store_invariant_apply_operations:
  "store_invariant t \<Longrightarrow> store_invariant (apply_operations ops t)"
  by (induction ops arbitrary: t) (simp_all add: store_invariant_apply_operation)

lemma set_put_item: "set (put_item it t) \<subseteq> insert it (set t)"
  by (auto simp: put_item_def)

lemma set_update_item: "set (update_item k g t) \<subseteq> set t \<union> g ` set t \<union> {g (key_only k)}"
  by (auto simp: update_item_def)

lemma never_redeemed_apply_operation:
  assumes "list_all never_redeemed t" "\<not> is_redemption op"
  shows "list_all never_redeemed (apply_operation op t)"
proof (cases op)
  case (CreatePending env ev)
  with assms process_donation_table [of env ev t] set_put_item show ?thesis
    by (fastforce simp: list_all_iff never_redeemed_def)
next
  case (CompletePurchase f verified now_utc rnd)
  show ?thesis
  proof (cases "handle_stripe_webhook f verified now_utc rnd t")
    case (Inl e)
    with assms CompletePurchase show ?thesis by simp
  next
    case (Inr p)
    then obtain r t' where h: "handle_stripe_webhook f verified now_utc rnd t = Inr (r, t')"
      by (cases p) auto
    from handle_stripe_webhook_table [OF h] have "list_all never_redeemed t'"
    proof
      assume "t' = t"
      with assms show ?thesis by simp
    next
      assume "\<exists>k v e c em nm. t' = update_item k (complete_item v e c em nm) t"
      then obtain k v e c em nm where t': "t' = update_item k (complete_item v e c em nm) t"
        by blast
      have "\<And>x. never_redeemed x \<Longrightarrow> never_redeemed (complete_item v e c em nm x)"
        by (simp add: never_redeemed_def complete_item_def)
      moreover have "never_redeemed (key_only k)" by (simp add: never_redeemed_def key_only_def)
      ultimately show ?thesis
        using assms(1) set_update_item [of k "complete_item v e c em nm" t]
        unfolding t' list_all_iff by blast
    qed
    with h CompletePurchase show ?thesis by simp
  qed
next
  case (Redeem f ev n1 n2)
  with assms show ?thesis by simp
qed

lemma redeemed_iff_apply_operation:
  assumes "list_all redeemed_iff_redeemedTime t" "\<not> is_completion op"
  shows "list_all redeemed_iff_redeemedTime (apply_operation op t)"
proof (cases op)
  case (CreatePending env ev)
  with assms process_donation_table [of env ev t] set_put_item show ?thesis
    by (fastforce simp: list_all_iff redeemed_iff_redeemedTime_def)
next
  case (CompletePurchase f verified now_utc rnd)
  with assms show ?thesis by simp
next
  case (Redeem f ev n1 n2)
  have "\<And>k x. redeemed_iff_redeemedTime x \<Longrightarrow> redeemed_iff_redeemedTime (mark_redeemed k n2 x)"
    by (simp add: redeemed_iff_redeemedTime_def mark_redeemed_def)
  with assms Redeem validate_ticket_table [of f ev t n1 n2] show ?thesis
    by (auto simp: list_all_iff)
qed

lemma never_redeemed_apply_operations:
  "list_all never_redeemed t \<Longrightarrow> list_all (\<lambda>op. \<not> is_redemption op) ops \<Longrightarrow>
   list_all never_redeemed (apply_operations ops t)"
  by (induction ops arbitrary: t) (simp_all add: never_redeemed_apply_operation)

lemma redeemed_iff_apply_operations:
  "list_all redeemed_iff_redeemedTime t \<Longrightarrow> list_all (\<lambda>op. \<not> is_completion op) ops \<Longrightarrow>
   list_all redeemed_iff_redeemedTime (apply_operations ops t)"
  by (induction ops arbitrary: t) (simp_all add: redeemed_iff_apply_operation)

lemma apply_operations_append:
  "apply_operations (xs @ ys) t = apply_operations ys (apply_operations xs t)"
  by (induction xs arbitrary: t) simp_all

text \<open>The example sequence, step by step.\<close>

lemma completion_time_stamps:
  "expiration_timestamp completion_time = Some 1704949200"
  "creation_timestamp completion_time = 1704927600"
  "expiration_timestamp (completion_time\<lparr>minute := 20\<rparr>) = Some 1704949200"
  "creation_timestamp (completion_time\<lparr>minute := 20\<rparr>) = 1704928800"
  by code_simp+

lemma example_create:
  "apply_operation (CreatePending purchase_env purchase_request) [] = [pending_ticket]"
  by code_simp

lemma example_complete:
  "apply_operation
     (CompletePurchase no_webhook_faults (Some completed_event) completion_time stuck_rnd)
     [pending_ticket] = [completed_ticket]"
  by (simp add: handle_stripe_webhook_def completed_event_def Let_def completion_time_stamps
      stuck_code no_webhook_faults_def query_index_def pending_ticket_def update_item_def
      has_key_def complete_item_def completed_ticket_def)

lemma example_redeem:
  "apply_operation (Redeem no_faults scan_O 1704928200 1704928201) [completed_ticket]
     = [completed_ticket\<lparr>redeemed := Some True, redeemedTime := Some 1704928201\<rparr>]"
  by code_simp

lemma example_complete_again:
  "apply_operation
     (CompletePurchase no_webhook_faults (Some completed_event)
        (completion_time\<lparr>minute := 20\<rparr>) stuck_rnd)
     [completed_ticket\<lparr>redeemed := Some True, redeemedTime := Some 1704928201\<rparr>]
     = [after_duplicate_delivery]"
  by (simp add: handle_stripe_webhook_def completed_event_def Let_def completion_time_stamps
      stuck_code no_webhook_faults_def query_index_def pending_ticket_def update_item_def
      has_key_def complete_item_def completed_ticket_def after_duplicate_delivery_def)

lemma example_duplicate_delivery:
  "apply_operations duplicate_delivery [] = [after_duplicate_delivery]"
  by (simp only: duplicate_delivery_def apply_operations.simps example_create example_complete
      example_redeem example_complete_again)

text \<open>
  Claim C3 as stated: in every reachable record \<open>redeemedTime\<close> is set if and only if
  \<open>redeemed\<close> is true, also under duplicate deliveries of the completion event. After a
  purchase, its completion, a redemption and a second delivery of the completion event
  the record has \<open>redeemed = False\<close> and still carries the \<open>redeemedTime\<close> of the
  redemption: the completion writes \<open>redeemed = False\<close> unconditionally.
\<close>

theorem duplicate_delivery_counterexample:
  "apply_operations duplicate_delivery [] = [after_duplicate_delivery]
   \<and> redeemed after_duplicate_delivery = Some False
   \<and> redeemedTime after_duplicate_delivery = Some 1704928201
   \<and> \<not> redeemed_iff_redeemedTime after_duplicate_delivery"
  by (simp add: example_duplicate_delivery redeemed_iff_redeemedTime_def
      after_duplicate_delivery_def completed_ticket_def pending_ticket_def)

text \<open>
  Claim C3, amended. Every record reachable from the empty store through any sequence
  of the operations createPending, completePurchase and redeem, duplicate deliveries of
  the completion event included, satisfies: \<open>redeemed\<close> true implies \<open>status\<close> completed,
  and \<open>redeemed\<close> true implies \<open>redeemedTime\<close> set. The converse, \<open>redeemedTime\<close> set
  implies \<open>redeemed\<close> true, holds for every sequence in which no completion event
  follows a redemption.
\<close>

theorem reachable_record_invariants:
  "list_all (\<lambda>it. redeemed_implies_completed it \<and> redeemed_implies_redeemedTime it)
     (apply_operations ops [])
   \<and> (list_all (\<lambda>op. \<not> is_redemption op) before \<and> list_all (\<lambda>op. \<not> is_completion op) after
        \<longrightarrow> list_all redeemed_iff_redeemedTime (apply_operations (before @ after) []))"
proof (intro conjI impI)
  have "store_invariant []" by (simp add: store_invariant_def)
  then have "store_invariant (apply_operations ops [])"
    by (rule store_invariant_apply_operations)
  then show "list_all (\<lambda>it. redeemed_implies_completed it \<and> redeemed_implies_redeemedTime it)
     (apply_operations ops [])"
    by (simp add: store_invariant_def)
next
  assume a: "list_all (\<lambda>op. \<not> is_redemption op) before
    \<and> list_all (\<lambda>op. \<not> is_completion op) after"
  have "list_all never_redeemed (apply_operations before [])"
    using a never_redeemed_apply_operations [of "[]" before] by simp
  then have "list_all redeemed_iff_redeemedTime (apply_operations before [])"
    by (auto simp: list_all_iff never_redeemed_def redeemed_iff_redeemedTime_def)
  then have "list_all redeemed_iff_redeemedTime
      (apply_operations after (apply_operations before []))"
    using a redeemed_iff_apply_operations [of "apply_operations before []" after] by simp
  then show "list_all redeemed_iff_redeemedTime (apply_operations (before @ after) [])"
    by (simp add: apply_operations_append)
qed

theorem reachable_record_invariants_witness:
  "redeemed_implies_completed after_duplicate_delivery
   \<and> redeemed_implies_redeemedTime after_duplicate_delivery
   \<and> redeemed_iff_redeemedTime
       (completed_ticket\<lparr>redeemed := Some True, redeemedTime := Some 1704928201\<rparr>)"
proof -
  let ?before = "[CreatePending purchase_env purchase_request,
      CompletePurchase no_webhook_faults (Some completed_event) completion_time stuck_rnd]"
  let ?after = "[Redeem no_faults scan_O 1704928200 1704928201]"
  have h: "list_all (\<lambda>op. \<not> is_redemption op) ?before \<and> list_all (\<lambda>op. \<not> is_completion op) ?after"
    by simp
  have e: "apply_operations (?before @ ?after) []
      = [completed_ticket\<lparr>redeemed := Some True, redeemedTime := Some 1704928201\<rparr>]"
    by (simp only: append.simps apply_operations.simps example_create example_complete
        example_redeem)
  from reachable_record_invariants [of duplicate_delivery ?before ?after] h
  show ?thesis
    by (simp only: e example_duplicate_delivery) simp
qed

section \<open>Properties of the webhook's acknowledgement\<close>




text \<open>Only a completion turns a pending record into a completed one or gives it a
  code.\<close>

lemma pending_apply_operation:
  assumes "list_all (pending_without_code k) t" "\<not> is_completion op"
  shows "list_all (pending_without_code k) (apply_operation op t)"
proof (cases op)
  case (CreatePending env ev)
  have "snd (process_donation env ev t) = t
      \<or> (\<exists>it. snd (process_donation env ev t) = put_item it t
             \<and> status it = Some ''pending'' \<and> verificationId it = None)"
    unfolding process_donation_def
    by (auto simp: Let_def key_only_def split: donation_body.splits sum.splits option.splits)
  with assms CreatePending set_put_item show ?thesis
    by (fastforce simp: list_all_iff pending_without_code_def)
next
  case (CompletePurchase f verified now_utc rnd)
  with assms show ?thesis by simp
next
  case (Redeem f ev n1 n2)
  have "\<And>k' x. pending_without_code k x \<Longrightarrow> pending_without_code k (mark_redeemed k' n2 x)"
    by (simp add: pending_without_code_def mark_redeemed_def)
  with assms Redeem validate_ticket_table [of f ev t n1 n2] show ?thesis
    by (auto simp: list_all_iff)
qed

lemma pending_apply_operations:
  "list_all (pending_without_code k) t \<Longrightarrow> list_all (\<lambda>op. \<not> is_completion op) ops \<Longrightarrow>
   list_all (pending_without_code k) (apply_operations ops t)"
  by (induction ops arbitrary: t) (simp_all add: pending_apply_operation)

text \<open>
  Claim C10. For every verified \<open>checkout.session.completed\<close> event that matches a
  stored record (and whose fields the handler can read), if the completion update
  raises, the handler still returns status 200, with the error marker in the body only,
  and the table is as before. A record that was pending without a verification code
  stays so, and no later purchase or validation gives it a code: only another
  completion event could.
\<close>

theorem failed_completion_update_is_acknowledged:
  assumes "event_type ev = ''checkout.session.completed''"
    and "cs_customer_details (data_object ev) \<noteq> Null"
    and "cs_amount_total (data_object ev) \<noteq> Null"
    and "query_index checkoutSessionId (cs_id (data_object ev)) t \<noteq> []"
    and "wf_update f"
  shows "handle_stripe_webhook f (Some ev) now_utc rnd t
           = Inr (\<lparr>w_statusCode = 200,
                   w_body = Some (''error'', Some ''Internal server error'')\<rparr>, t)
       \<and> (\<forall>k ops. list_all (pending_without_code k) t
              \<and> list_all (\<lambda>op. \<not> is_completion op) ops
            \<longrightarrow> list_all (pending_without_code k)
                  (apply_operations ops
                     (apply_operation (CompletePurchase f (Some ev) now_utc rnd) t)))"
proof -
  have r: "handle_stripe_webhook f (Some ev) now_utc rnd t
      = Inr (\<lparr>w_statusCode = 200,
              w_body = Some (''error'', Some ''Internal server error'')\<rparr>, t)"
    using handle_stripe_webhook_update_fails [OF assms, of now_utc rnd]
    by (simp add: webhook_error_def)
  then have "apply_operation (CompletePurchase f (Some ev) now_utc rnd) t = t" by simp
  with r pending_apply_operations show ?thesis by simp
qed

lemma scan_of_pending_ticket:
  "apply_operations [Redeem no_faults scan_O 1704928200 1704928201] [pending_ticket]
     = [pending_ticket]"
  by code_simp

theorem failed_completion_update_is_acknowledged_witness:
  "handle_stripe_webhook failing_update (Some completed_event) completion_time stuck_rnd
     [pending_ticket]
   = Inr (\<lparr>w_statusCode = 200, w_body = Some (''error'', Some ''Internal server error'')\<rparr>,
          [pending_ticket])
   \<and> status pending_ticket = Some ''pending'' \<and> verificationId pending_ticket = None
   \<and> apply_operations [Redeem no_faults scan_O 1704928200 1704928201]
        (apply_operation
           (CompletePurchase failing_update (Some completed_event) completion_time stuck_rnd)
           [pending_ticket])
       = [pending_ticket]"
proof -
  have h: "event_type completed_event = ''checkout.session.completed''"
    "cs_customer_details (data_object completed_event) \<noteq> Null"
    "cs_amount_total (data_object completed_event) \<noteq> Null"
    "query_index checkoutSessionId (cs_id (data_object completed_event)) [pending_ticket] \<noteq> []"
    "wf_update failing_update"
    by (simp_all add: completed_event_def query_index_def pending_ticket_def failing_update_def)
  from failed_completion_update_is_acknowledged [OF h, of completion_time stuck_rnd]
  have r: "handle_stripe_webhook failing_update (Some completed_event) completion_time stuck_rnd
     [pending_ticket]
   = Inr (\<lparr>w_statusCode = 200, w_body = Some (''error'', Some ''Internal server error'')\<rparr>,
          [pending_ticket])" by blast
  then have s: "apply_operation
      (CompletePurchase failing_update (Some completed_event) completion_time stuck_rnd)
      [pending_ticket] = [pending_ticket]" by simp
  have p: "status pending_ticket = Some ''pending''" "verificationId pending_ticket = None"
    by (simp_all add: pending_ticket_def)
  show ?thesis unfolding s scan_of_pending_ticket using r p by blast
qed

section \<open>Concurrent redemption attempts\<close>

lemma starts_with_append [simp]: "starts_with p (p @ rest)"
  by (simp add: starts_with_def)
























end
